theory Spec2Isabelle
  imports Main "HOL-Library.Word" "HOL-Library.Sublist"
begin

section \<open>Strings and values of the host language\<close>

text \<open>
  The program is \<^verbatim>\<open>src/src/App.tsx\<close>. Its strings are sequences of UTF-16 code units, so a
  string is a list of 16-bit words; the Japanese literals of the source are written out as
  their code units. \<open>ascii\<close> embeds a literal whose characters are all ASCII.
\<close>

type_synonym jsstring = "16 word list"

definition ascii :: "string \<Rightarrow> jsstring" where
  "ascii s = map of_char s"

text \<open>
  \<^verbatim>\<open>text.includes(k)\<close>: does \<open>k\<close> occur in \<open>text\<close> as a contiguous run of code units.
\<close>

primrec str_includes :: "jsstring \<Rightarrow> jsstring \<Rightarrow> bool" where
  "str_includes [] k = (k = [])"
| "str_includes (c # s) k = (prefix k (c # s) \<or> str_includes s k)"

text \<open>
  \<^verbatim>\<open>s.trim()\<close> removes leading and trailing white space and line terminators. The code units
  are the ones ECMAScript lists: TAB, VT, FF, SP, NBSP, ZWNBSP, the space separators
  (U+1680, U+2000 to U+200A, U+202F, U+205F, U+3000) and LF, CR, LS, PS.
\<close>

definition isWhiteSpace :: "16 word \<Rightarrow> bool" where
  "isWhiteSpace c \<longleftrightarrow>
     c \<in> set [0x0009, 0x000A, 0x000B, 0x000C, 0x000D, 0x0020, 0x00A0, 0x1680,
                  0x2000, 0x2001, 0x2002, 0x2003, 0x2004, 0x2005, 0x2006, 0x2007,
                  0x2008, 0x2009, 0x200A, 0x2028, 0x2029, 0x202F, 0x205F, 0x3000,
                  0xFEFF]"

definition str_trim :: "jsstring \<Rightarrow> jsstring" where
  "str_trim s = rev (dropWhile isWhiteSpace (rev (dropWhile isWhiteSpace s)))"

text \<open>
  \<^verbatim>\<open>s.toLowerCase()\<close> follows the Unicode case tables of the engine that runs the program.
  Those tables are no part of the repository, so every function below that lower-cases
  takes the operation as its first argument. \<open>toLowerCaseASCII\<close> is the restriction of the
  operation to the letters A to Z; it agrees with every engine on strings whose cased
  letters are all ASCII and is what the concrete evaluations below run.
\<close>

definition toLowerCaseASCII :: "jsstring \<Rightarrow> jsstring" where
  "toLowerCaseASCII s = map (\<lambda>c. if 0x41 \<le> c \<and> c \<le> 0x5A then c + 0x20 else c) s"

text \<open>
  Values that reach the program from \<^verbatim>\<open>response.json()\<close> and \<^verbatim>\<open>JSON.parse\<close>, together with
  \<^verbatim>\<open>undefined\<close>. An object is the list of its own properties. Numbers are IEEE doubles;
  they stay abstract.
\<close>

typedecl jsnumber

datatype jsval =
    VUndefined
  | VNull
  | VBool bool
  | VNum jsnumber
  | VStr jsstring
  | VArr "jsval list"
  | VObj "(jsstring \<times> jsval) list"

text \<open>
  The icon components imported from \<^verbatim>\<open>lucide-react\<close> that the classifiers use. The \<open>icon\<close>
  field of a result normally holds one of them; \<open>Inherited name\<close> is the value of
  \<^verbatim>\<open>Object.prototype[name]\<close>, which is no component (see \<open>ICON_MAP_lookup\<close>).
\<close>

datatype LucideIcon =
  AlertTriangle | Users | FileText | ShieldCheck | Layers | Zap | Briefcase | AlertCircle | XCircle

datatype iconval = Icon LucideIcon | Inherited jsstring

section \<open>Data model\<close>

text \<open>
  \<^verbatim>\<open>type SkillCategory\<close> (lines 27-34) and \<^verbatim>\<open>type DebugLog\<close> (lines 36-40). The optional
  \<^verbatim>\<open>isError\<close> is an option: \<open>None\<close> is the absent property, which reads as \<^verbatim>\<open>undefined\<close>
  and is falsy. \<open>label\<close> and \<open>text'\<close> (the field \<^verbatim>\<open>text\<close>) are values, not strings, because
  the delegated classifier copies them from a parsed reply without a check.
\<close>

record SkillCategory =
  label :: jsval
  text' :: jsval
  icon :: iconval
  color :: jsstring
  bg :: jsstring
  isError :: "bool option"

record DebugLog =
  prompt :: jsstring
  input :: jsstring
  response :: jsstring

text \<open>An entry of the rule table: the fields of a category and its trigger keywords.\<close>

record DictEntry = SkillCategory +
  keys :: "jsstring list"

section \<open>Standard mode: the dictionary classifier\<close>

text \<open>
  The six entries of \<^verbatim>\<open>dictionary\<close> (lines 51-58), in the order of the source:
  crisis management, stakeholder management, project planning, quality control,
  schedule control (Time Mgmt) and data-driven operation.
\<close>

definition rule_crisis :: DictEntry where
  "rule_crisis =
    \<lparr>label = VStr [0x30AF, 0x30E9, 0x30A4, 0x30B7, 0x30B9, 0x30DE, 0x30CD, 0x30B8, 0x30E1,
                   0x30F3, 0x30C8],
     text' = VStr [0x4E0D, 0x6E2C, 0x306E, 0x4E8B, 0x614B, 0x306B, 0x304A, 0x3051, 0x308B,
                   0x8FC5, 0x901F, 0x306A, 0x8AB2, 0x984C, 0x89E3, 0x6C7A, 0x3068, 0x30EA,
                   0x30B9, 0x30AF, 0x6975, 0x5C0F, 0x5316],
     icon = Icon AlertTriangle, color = ascii ''text-red-600'', bg = ascii ''bg-red-50'',
     isError = None,
     keys = [[0x6012], [0x30AF, 0x30EC, 0x30FC, 0x30E0], [0x82E6, 0x60C5], [0x8B1D], [0x8A6B],
             [0x30C8, 0x30E9, 0x30D6, 0x30EB], [0x4E8B, 0x6545], [0x7DCA, 0x6025]]\<rparr>"

definition rule_stakeholder :: DictEntry where
  "rule_stakeholder =
    \<lparr>label = VStr [0x30B9, 0x30C6, 0x30FC, 0x30AF, 0x30DB, 0x30EB, 0x30C0, 0x30FC, 0x30DE,
                   0x30CD, 0x30B8, 0x30E1, 0x30F3, 0x30C8],
     text' = VStr [0x591A, 0x69D8, 0x306A, 0x95A2, 0x4FC2, 0x8005, 0x3068, 0x306E, 0x5229,
                   0x5BB3, 0x8ABF, 0x6574, 0x304A, 0x3088, 0x3073, 0x5408, 0x610F, 0x5F62,
                   0x6210, 0x306E, 0x30EA, 0x30FC, 0x30C9],
     icon = Icon Users, color = ascii ''text-blue-600'', bg = ascii ''bg-blue-50'',
     isError = None,
     keys = [[0x8ABF, 0x6574], [0x5408, 0x610F], [0x76F8, 0x8AC7], [0x4F9D, 0x983C],
             [0x96FB, 0x8A71], [0x30E1, 0x30FC, 0x30EB], [0x4F1A, 0x8B70], [0x8AAC, 0x660E],
             [0x7A93, 0x53E3], [0x5BFE, 0x5FDC]]\<rparr>"

definition rule_planning :: DictEntry where
  "rule_planning =
    \<lparr>label = VStr [0x30D7, 0x30ED, 0x30B8, 0x30A7, 0x30AF, 0x30C8, 0x8A08, 0x753B, 0x30FB,
                   0x69CB, 0x60F3],
     text' = VStr [0x5B9F, 0x73FE, 0x53EF, 0x80FD, 0x6027, 0x3092, 0x8003, 0x616E, 0x3057,
                   0x305F, 0x696D, 0x52D9, 0x8981, 0x4EF6, 0x5B9A, 0x7FA9, 0x304A, 0x3088,
                   0x3073, 0x5B9F, 0x88C5, 0x8A08, 0x753B, 0x306E, 0x7B56, 0x5B9A],
     icon = Icon FileText, color = ascii ''text-purple-600'', bg = ascii ''bg-purple-50'',
     isError = None,
     keys = [[0x4F01, 0x753B], [0x6848], [0x7ACB, 0x6848], [0x4ED5, 0x69D8], [0x8981, 0x4EF6],
             [0x691C, 0x8A0E], [0x6C7A], [0x30EB, 0x30FC, 0x30EB], [0x65B9, 0x91DD]]\<rparr>"

definition rule_quality :: DictEntry where
  "rule_quality =
    \<lparr>label = VStr [0x54C1, 0x8CEA, 0x7BA1, 0x7406, 0x0020, 0x0028, 0x0051, 0x0041, 0x002F,
                   0x0051, 0x0043, 0x0029],
     text' = VStr [0x6210, 0x679C, 0x7269, 0x306E, 0x54C1, 0x8CEA, 0x57FA, 0x6E96, 0x7B56,
                   0x5B9A, 0x304A, 0x3088, 0x3073, 0x53B3, 0x683C, 0x306A, 0x691C, 0x8A3C,
                   0x30D7, 0x30ED, 0x30BB, 0x30B9, 0x306E, 0x9042, 0x884C],
     icon = Icon ShieldCheck, color = ascii ''text-emerald-600'', bg = ascii ''bg-emerald-50'',
     isError = None,
     keys = [[0x30C1, 0x30A7, 0x30C3, 0x30AF], [0x78BA, 0x8A8D], [0x30DF, 0x30B9],
             [0x4FEE, 0x6B63], [0x6821, 0x6B63], [0x30C6, 0x30B9, 0x30C8], [0x691C, 0x7B97],
             [0x76E3, 0x67FB]]\<rparr>"

definition rule_schedule :: DictEntry where
  "rule_schedule =
    \<lparr>label = VStr [0x5DE5, 0x7A0B, 0x7BA1, 0x7406, 0x0020, 0x0028, 0x0054, 0x0069, 0x006D,
                   0x0065, 0x0020, 0x004D, 0x0067, 0x006D, 0x0074, 0x0029],
     text' = VStr [0x0057, 0x0042, 0x0053, 0x306B, 0x57FA, 0x3065, 0x304F, 0x53B3, 0x5BC6,
                   0x306A, 0x9032, 0x6357, 0x7BA1, 0x7406, 0x3068, 0x30EA, 0x30BD, 0x30FC,
                   0x30B9, 0x306E, 0x6700, 0x9069, 0x914D, 0x5206],
     icon = Icon Layers, color = ascii ''text-orange-600'', bg = ascii ''bg-orange-50'',
     isError = None,
     keys = [[0x65E5, 0x7A0B], [0x30B9, 0x30B1, 0x30B8, 0x30E5, 0x30FC, 0x30EB],
             [0x7D0D, 0x671F], [0x671F, 0x9650], [0x9032, 0x884C], [0x7BA1, 0x7406],
             [0x6BB5, 0x53D6, 0x308A], [0x5DE5, 0x7A0B]]\<rparr>"

definition rule_data :: DictEntry where
  "rule_data =
    \<lparr>label = VStr [0x30C7, 0x30FC, 0x30BF, 0x30C9, 0x30EA, 0x30D6, 0x30F3, 0x30FB, 0x30AA,
                   0x30DA, 0x30EC, 0x30FC, 0x30B7, 0x30E7, 0x30F3],
     text' = VStr [0x5B9A, 0x91CF, 0x7684, 0x30C7, 0x30FC, 0x30BF, 0x306B, 0x57FA, 0x3065,
                   0x304F, 0x696D, 0x52D9, 0x30D7, 0x30ED, 0x30BB, 0x30B9, 0x306E, 0x53EF,
                   0x8996, 0x5316, 0x3068, 0x52B9, 0x7387, 0x5316],
     icon = Icon Zap, color = ascii ''text-yellow-600'', bg = ascii ''bg-yellow-50'',
     isError = None,
     keys = [[0x30C7, 0x30FC, 0x30BF], [0x96C6, 0x8A08], [0x5165, 0x529B],
             [0x30A8, 0x30AF, 0x30BB, 0x30EB], [0x6570, 0x5B57], [0x5206, 0x6790],
             [0x8A08, 0x7B97], [0x30B7, 0x30B9, 0x30C6, 0x30E0]]\<rparr>"
definition dictionary :: "DictEntry list" where
  "dictionary =
     [rule_crisis, rule_stakeholder, rule_planning, rule_quality, rule_schedule, rule_data]"

text \<open>The value returned when no entry matches (lines 66-72): general administration.\<close>

definition fallback :: SkillCategory where
  "fallback =
    \<lparr>label = VStr [0x30B8, 0x30A7, 0x30CD, 0x30E9, 0x30EB, 0x30FB, 0x30A2, 0x30C9, 0x30DF,
                   0x30CB, 0x30B9, 0x30C8, 0x30EC, 0x30FC, 0x30B7, 0x30E7, 0x30F3],
     text' = VStr [0x7D44, 0x7E54, 0x904B, 0x55B6, 0x3092, 0x5186, 0x6ED1, 0x5316, 0x3059,
                   0x308B, 0x305F, 0x3081, 0x306E, 0x5B9A, 0x5E38, 0x696D, 0x52D9, 0x306E,
                   0x78BA, 0x5B9F, 0x306A, 0x9042, 0x884C],
     icon = Icon Briefcase, color = ascii ''text-slate-500'', bg = ascii ''bg-slate-50'',
     isError = None\<rparr>"

text \<open>
  The loop of lines 60-64: the first entry one of whose keys occurs in the text is
  returned as a copy (\<^verbatim>\<open>{ ...cat }\<close>). The copy also carries the property \<^verbatim>\<open>keys\<close>, which the
  type \<^verbatim>\<open>SkillCategory\<close> does not declare and nothing reads; the model returns the
  declared fields.
\<close>

fun dictionary_loop :: "DictEntry list \<Rightarrow> jsstring \<Rightarrow> SkillCategory option" where
  "dictionary_loop [] text = None"
| "dictionary_loop (cat # rest) text =
     (if list_ex (\<lambda>k. str_includes text k) (keys cat)
      then Some (SkillCategory.truncate cat)
      else dictionary_loop rest text)"

definition analyzeTextStandard :: "(jsstring \<Rightarrow> jsstring) \<Rightarrow> jsstring \<Rightarrow> SkillCategory" where
  "analyzeTextStandard toLowerCase inputText =
     (let text = toLowerCase (str_trim inputText) in
      case dictionary_loop dictionary text of
        Some cat \<Rightarrow> cat
      | None \<Rightarrow> fallback)"

text \<open>Every trigger keyword of the table, and "some key of this entry occurs in \<open>s\<close>".\<close>

definition all_keys :: "jsstring list" where
  "all_keys = concat (map keys dictionary)"

definition rule_matches :: "DictEntry \<Rightarrow> jsstring \<Rightarrow> bool" where
  "rule_matches cat s = list_ex (\<lambda>k. str_includes s k) (keys cat)"

text \<open>
  What the theorems on the dictionary classifier ask of the engine's lower-casing: it
  neither creates nor destroys an occurrence of a trigger keyword. The keywords consist
  of CJK ideographs, katakana and hiragana only, which have no case mapping and are no
  other character's lower case, so the Unicode operation has this property.
\<close>

definition keyword_stable :: "(jsstring \<Rightarrow> jsstring) \<Rightarrow> bool" where
  "keyword_stable toLowerCase \<longleftrightarrow>
     (\<forall>s k. k \<in> set all_keys \<longrightarrow> str_includes (toLowerCase s) k = str_includes s k)"

text \<open>
  The render code tests \<^verbatim>\<open>result.isError\<close> for truthiness (line 419): a result counts as an
  error only when the property is present and true.
\<close>

definition is_error :: "SkillCategory \<Rightarrow> bool" where
  "is_error r \<longleftrightarrow> isError r = Some True"

text \<open>
  Two inputs differ only by letter case and/or leading and trailing white space: the
  least relation that relates strings with the same lower-casing, relates strings with
  the same trimmed text, and is closed under chaining.
\<close>

inductive differ_only_by_case_or_padding ::
  "(jsstring \<Rightarrow> jsstring) \<Rightarrow> jsstring \<Rightarrow> jsstring \<Rightarrow> bool"
  for toLowerCase :: "jsstring \<Rightarrow> jsstring" where
  same_lower_case:
    "toLowerCase a = toLowerCase b \<Longrightarrow> differ_only_by_case_or_padding toLowerCase a b"
| same_trimmed:
    "str_trim a = str_trim b \<Longrightarrow> differ_only_by_case_or_padding toLowerCase a b"
| chained:
    "differ_only_by_case_or_padding toLowerCase a b \<Longrightarrow>
     differ_only_by_case_or_padding toLowerCase b c \<Longrightarrow>
     differ_only_by_case_or_padding toLowerCase a c"

section \<open>Delegated mode: the remote classifier\<close>

subsection \<open>Errors and the operations of the engine\<close>

text \<open>
  Everything the \<^verbatim>\<open>try\<close> block of \<^verbatim>\<open>callGeminiAPI\<close> can throw is an \<^verbatim>\<open>Error\<close> object: the
  rejections of \<^verbatim>\<open>fetch\<close> and \<^verbatim>\<open>response.json()\<close>, the \<^verbatim>\<open>SyntaxError\<close> of \<^verbatim>\<open>JSON.parse\<close>, the
  engine's \<^verbatim>\<open>TypeError\<close>s and the two \<^verbatim>\<open>new Error(...)\<close> of the source. The handler reads
  only \<^verbatim>\<open>e.message\<close>, so an error is its message.
\<close>

datatype jserror = Error (message: jsstring)

text \<open>The \<^verbatim>\<open>TypeError\<close>s the engine can raise in the program; their wording is the engine's.\<close>

datatype TypeErrorKind =
    NullishRead jsval jsstring
  | NotCallable jsstring
  | NoPrimitiveValue

text \<open>
  What the engine supplies and the repository does not contain: the Unicode lower-casing,
  \<^verbatim>\<open>JSON.parse\<close> (\<open>Inl\<close> is the \<^verbatim>\<open>SyntaxError\<close> it throws), the conversions of a number to a
  string and to a boolean, and the messages of its \<^verbatim>\<open>TypeError\<close>s.
\<close>

record platform =
  toLowerCase :: "jsstring \<Rightarrow> jsstring"
  JSON_parse :: "jsstring \<Rightarrow> jserror + jsval"
  Number_toString :: "jsnumber \<Rightarrow> jsstring"
  Number_toBoolean :: "jsnumber \<Rightarrow> bool"
  TypeError_message :: "TypeErrorKind \<Rightarrow> jsstring"

definition TypeError :: "platform \<Rightarrow> TypeErrorKind \<Rightarrow> jserror + 'a" where
  "TypeError P kind = Inl (Error (TypeError_message P kind))"

text \<open>Sequencing of steps that may throw: the first error ends the \<^verbatim>\<open>try\<close> block.\<close>

fun andThen :: "jserror + 'a \<Rightarrow> ('a \<Rightarrow> jserror + 'b) \<Rightarrow> jserror + 'b" where
  "andThen (Inl e) f = Inl e"
| "andThen (Inr v) f = f v"

text \<open>Truthiness, as \<^verbatim>\<open>if (x)\<close>, \<^verbatim>\<open>!x\<close> and \<^verbatim>\<open>x || y\<close> test it.\<close>

fun ToBoolean :: "platform \<Rightarrow> jsval \<Rightarrow> bool" where
  "ToBoolean P VUndefined = False"
| "ToBoolean P VNull = False"
| "ToBoolean P (VBool b) = b"
| "ToBoolean P (VNum n) = Number_toBoolean P n"
| "ToBoolean P (VStr s) = (s \<noteq> [])"
| "ToBoolean P (VArr xs) = True"
| "ToBoolean P (VObj props) = True"

text \<open>
  Conversion to a string, as \<^verbatim>\<open>new Error(v)\<close> and the property key of \<^verbatim>\<open>ICON_MAP[v]\<close>
  perform it. An array is joined with commas, \<^verbatim>\<open>null\<close> and \<^verbatim>\<open>undefined\<close> elements
  giving the empty string. A parsed object has no callable property of its own: it
  converts through \<^verbatim>\<open>Object.prototype.toString\<close> unless an own property \<^verbatim>\<open>toString\<close>
  shadows that method, and then the conversion throws.
\<close>

fun ToString :: "platform \<Rightarrow> jsval \<Rightarrow> jserror + jsstring"
and Array_join :: "platform \<Rightarrow> jsval list \<Rightarrow> jserror + jsstring" where
  "ToString P VUndefined = Inr (ascii ''undefined'')"
| "ToString P VNull = Inr (ascii ''null'')"
| "ToString P (VBool b) = Inr (if b then ascii ''true'' else ascii ''false'')"
| "ToString P (VNum n) = Inr (Number_toString P n)"
| "ToString P (VStr s) = Inr s"
| "ToString P (VArr xs) = Array_join P xs"
| "ToString P (VObj props) =
     (if map_of props (ascii ''toString'') = None then Inr (ascii ''[object Object]'')
      else TypeError P NoPrimitiveValue)"
| "Array_join P [] = Inr []"
| "Array_join P (x # xs) =
     andThen (if x = VUndefined \<or> x = VNull then Inr [] else ToString P x) (\<lambda>s.
       if xs = [] then Inr s
       else andThen (Array_join P xs) (\<lambda>r. Inr (s @ ascii '','' @ r)))"

text \<open>
  \<^verbatim>\<open>v.name\<close> and \<^verbatim>\<open>v[0]\<close>. The names the program reads (\<^verbatim>\<open>error\<close>, \<^verbatim>\<open>message\<close>, \<^verbatim>\<open>candidates\<close>,
  \<^verbatim>\<open>content\<close>, \<^verbatim>\<open>parts\<close>, \<^verbatim>\<open>text\<close>, \<^verbatim>\<open>label\<close>, \<^verbatim>\<open>iconKey\<close>) are defined on no built-in prototype,
  so only an object's own properties can answer; reading a property of \<^verbatim>\<open>null\<close> or
  \<^verbatim>\<open>undefined\<close> throws. Index 0 also exists on a non-empty array and a non-empty string.
\<close>

fun Get :: "platform \<Rightarrow> jsval \<Rightarrow> jsstring \<Rightarrow> jserror + jsval" where
  "Get P VUndefined name = TypeError P (NullishRead VUndefined name)"
| "Get P VNull name = TypeError P (NullishRead VNull name)"
| "Get P (VObj props) name = Inr (case map_of props name of Some v \<Rightarrow> v | None \<Rightarrow> VUndefined)"
| "Get P v name = Inr VUndefined"

fun Get0 :: "platform \<Rightarrow> jsval \<Rightarrow> jserror + jsval" where
  "Get0 P VUndefined = TypeError P (NullishRead VUndefined (ascii ''0''))"
| "Get0 P VNull = TypeError P (NullishRead VNull (ascii ''0''))"
| "Get0 P (VObj props) =
     Inr (case map_of props (ascii ''0'') of Some v \<Rightarrow> v | None \<Rightarrow> VUndefined)"
| "Get0 P (VArr xs) = Inr (case xs of [] \<Rightarrow> VUndefined | x # _ \<Rightarrow> x)"
| "Get0 P (VStr s) = Inr (case s of [] \<Rightarrow> VUndefined | c # _ \<Rightarrow> VStr [c])"
| "Get0 P v = Inr VUndefined"

text \<open>Optional chaining \<^verbatim>\<open>v?.\<close>: \<^verbatim>\<open>undefined\<close> when \<open>v\<close> is \<^verbatim>\<open>null\<close> or \<^verbatim>\<open>undefined\<close>.\<close>

definition optional :: "jsval \<Rightarrow> (jsval \<Rightarrow> jserror + jsval) \<Rightarrow> jserror + jsval" where
  "optional v f = (if v = VUndefined \<or> v = VNull then Inr VUndefined else f v)"

text \<open>
  \<^verbatim>\<open>s.replace(/pat/g, '')\<close> for a pattern of literal characters: every match, found from
  left to right without overlap, is removed. The patterns of the program are not empty.
\<close>

function str_remove_all :: "jsstring \<Rightarrow> jsstring \<Rightarrow> jsstring" where
  "str_remove_all pat [] = []"
| "str_remove_all pat (c # s) =
     (if pat \<noteq> [] \<and> prefix pat (c # s)
      then str_remove_all pat (drop (length pat) (c # s))
      else c # str_remove_all pat s)"
  by pat_completeness auto
termination
  by (relation "measure (\<lambda>(pat, s). length s)") auto

text \<open>
  \<^verbatim>\<open>JSON.stringify\<close> of a string (the \<^verbatim>\<open>QuoteJSONString\<close> of ECMAScript): the text between
  double quotes, with the quote, the backslash and the control characters escaped and a
  surrogate that is not part of a pair written as \<^verbatim>\<open>\uXXXX\<close>.
\<close>

definition hexDigit :: "16 word \<Rightarrow> 16 word" where
  "hexDigit d = (if d < 10 then 0x30 + d else 0x57 + d)"

definition UnicodeEscape :: "16 word \<Rightarrow> jsstring" where
  "UnicodeEscape c =
     [0x5C, 0x75, hexDigit (drop_bit 12 c), hexDigit (take_bit 4 (drop_bit 8 c)),
      hexDigit (take_bit 4 (drop_bit 4 c)), hexDigit (take_bit 4 c)]"

definition escape_unit :: "16 word \<Rightarrow> jsstring" where
  "escape_unit c =
     (if c = 0x08 then [0x5C, 0x62]
      else if c = 0x09 then [0x5C, 0x74]
      else if c = 0x0A then [0x5C, 0x6E]
      else if c = 0x0C then [0x5C, 0x66]
      else if c = 0x0D then [0x5C, 0x72]
      else if c = 0x22 then [0x5C, 0x22]
      else if c = 0x5C then [0x5C, 0x5C]
      else if c < 0x20 \<or> (0xD800 \<le> c \<and> c \<le> 0xDFFF) then UnicodeEscape c
      else [c])"

fun quote_units :: "jsstring \<Rightarrow> jsstring" where
  "quote_units [] = []"
| "quote_units [c] = escape_unit c"
| "quote_units (c # d # s) =
     (if 0xD800 \<le> c \<and> c \<le> 0xDBFF \<and> 0xDC00 \<le> d \<and> d \<le> 0xDFFF
      then c # d # quote_units s
      else escape_unit c @ quote_units (d # s))"

definition JSON_stringify_string :: "jsstring \<Rightarrow> jsstring" where
  "JSON_stringify_string s = [0x22] @ quote_units s @ [0x22]"

subsection \<open>The constants of the remote call\<close>

definition GEMINI_MODEL :: jsstring where
  "GEMINI_MODEL = ascii ''gemini-2.5-flash-lite''"

definition SYSTEM_PROMPT :: jsstring where
  \<open>SYSTEM_PROMPT = ascii
      (''\<newline>'' @
       ''You are an expert Project Manager.\<newline>'' @
       ''Analyze the user's task description and map it to a PMBOK Knowledge Area.\<newline>'' @
       ''Return ONLY a JSON object with the following structure (no markdown):\<newline>'' @
       ''{\<newline>'' @
       ''  "label": "Professional PM Term (e.g. Stakeholder Management)",\<newline>'' @
       ''  "text": "A professional description in Japanese (approx 30 chars)",\<newline>'' @
       ''  "iconKey": "One of: AlertTriangle, Users, FileText, ShieldCheck, Layers, Zap, Briefcase"\<newline>'' @
       ''}\<newline>'')\<close>

text \<open>
  \<^verbatim>\<open>ICON_MAP\<close> (lines 43-45) is an object literal, so \<^verbatim>\<open>ICON_MAP[key]\<close> answers with an own
  property or, failing that, with a property inherited from \<^verbatim>\<open>Object.prototype\<close>; a key
  found in neither reads as \<^verbatim>\<open>undefined\<close> (\<open>None\<close>). Every value found is truthy.
\<close>

definition ICON_MAP :: "(jsstring \<times> LucideIcon) list" where
  "ICON_MAP =
     [(ascii ''AlertTriangle'', AlertTriangle), (ascii ''Users'', Users),
      (ascii ''FileText'', FileText), (ascii ''ShieldCheck'', ShieldCheck),
      (ascii ''Layers'', Layers), (ascii ''Zap'', Zap), (ascii ''Briefcase'', Briefcase),
      (ascii ''AlertCircle'', AlertCircle)]"

definition Object_prototype_names :: "jsstring list" where
  "Object_prototype_names =
     [ascii ''constructor'', ascii ''hasOwnProperty'', ascii ''isPrototypeOf'',
      ascii ''propertyIsEnumerable'', ascii ''toLocaleString'', ascii ''toString'',
      ascii ''valueOf'', ascii ''__proto__'', ascii ''__defineGetter__'',
      ascii ''__defineSetter__'', ascii ''__lookupGetter__'', ascii ''__lookupSetter__'']"

definition ICON_MAP_lookup :: "jsstring \<Rightarrow> iconval option" where
  "ICON_MAP_lookup key =
     (case map_of ICON_MAP key of
        Some i \<Rightarrow> Some (Icon i)
      | None \<Rightarrow> if key \<in> set Object_prototype_names then Some (Inherited key) else None)"

subsection \<open>The network\<close>

text \<open>
  The request that \<^verbatim>\<open>fetch\<close> is called with (lines 78-87); \<open>body\<close> is the object that
  \<^verbatim>\<open>JSON.stringify\<close> serialises. The network answers a request in one of three ways:
  \<^verbatim>\<open>fetch\<close> rejects (no response arrives), or a response arrives with an HTTP status and
  then either \<^verbatim>\<open>response.json()\<close> rejects or the body parses to a value. \<^verbatim>\<open>fetch\<close> resolves
  for every status; \<^verbatim>\<open>response.ok\<close> tells whether the status is one of 200 to 299. The
  program reads neither \<^verbatim>\<open>response.status\<close> nor \<^verbatim>\<open>response.ok\<close>.
\<close>

record request =
  url :: jsstring
  http_method :: jsstring
  headers :: "(jsstring \<times> jsstring) list"
  body :: jsval

datatype fetch_outcome =
    FetchRejected jserror
  | JsonRejected nat jserror
  | JsonBody nat jsval


definition gemini_request :: "jsstring \<Rightarrow> jsstring \<Rightarrow> request" where
  "gemini_request text apiKey =
    \<lparr>url = ascii ''https://generativelanguage.googleapis.com/v1beta/models/'' @ GEMINI_MODEL
             @ ascii '':generateContent?key='' @ apiKey,
     http_method = ascii ''POST'',
     headers = [(ascii ''Content-Type'', ascii ''application/json'')],
     body = VObj
       [(ascii ''system_instruction'',
           VObj [(ascii ''parts'', VArr [VObj [(ascii ''text'', VStr SYSTEM_PROMPT)]])]),
        (ascii ''contents'', VArr [VObj [(ascii ''parts'', VArr [VObj [(ascii ''text'', VStr text)]])]])]\<rparr>"

subsection \<open>\<^verbatim>\<open>callGeminiAPI\<close> (lines 76-127)\<close>

text \<open>A settled promise.\<close>

datatype 'a settled = Fulfilled 'a | Rejected jserror

text \<open>\<^verbatim>\<open>data.candidates?.[0]?.content?.parts?.[0]?.text\<close> (line 93).\<close>

definition content_of :: "platform \<Rightarrow> jsval \<Rightarrow> jserror + jsval" where
  "content_of P data =
     andThen (Get P data (ascii ''candidates'')) (\<lambda>candidates.
     andThen (optional candidates (Get0 P)) (\<lambda>candidate.
     andThen (optional candidate (\<lambda>v. Get P v (ascii ''content''))) (\<lambda>content.
     andThen (optional content (\<lambda>v. Get P v (ascii ''parts''))) (\<lambda>parts.
     andThen (optional parts (Get0 P)) (\<lambda>part.
     optional part (\<lambda>v. Get P v (ascii ''text'')))))))"

text \<open>
  Line 91: \<^verbatim>\<open>if (data.error) throw new Error(data.error.message || 'API Error')\<close>.
  \<open>Inr ()\<close> is "nothing thrown".
\<close>

definition check_error_field :: "platform \<Rightarrow> jsval \<Rightarrow> jserror + unit" where
  "check_error_field P data =
     andThen (Get P data (ascii ''error'')) (\<lambda>err.
       if ToBoolean P err
       then andThen (Get P err (ascii ''message'')) (\<lambda>m.
            andThen (ToString P (if ToBoolean P m then m else VStr (ascii ''API Error''))) (\<lambda>msg.
            Inl (Error msg)))
       else Inr ())"

text \<open>
  Line 96: only a string has a callable \<^verbatim>\<open>replace\<close>; the two patterns are the fence
  \<^verbatim>\<open>```json\<close> and the fence \<^verbatim>\<open>```\<close> (three code units 0x60).
\<close>

definition clean_json :: "platform \<Rightarrow> jsval \<Rightarrow> jserror + jsstring" where
  "clean_json P content =
     (case content of
        VStr c \<Rightarrow>
          Inr (str_trim (str_remove_all [0x60, 0x60, 0x60]
                 (str_remove_all ([0x60, 0x60, 0x60] @ ascii ''json'') c)))
      | _ \<Rightarrow> TypeError P (NotCallable (ascii ''replace'')))"

text \<open>Lines 99-112: the value returned when nothing was thrown.\<close>

definition success_result :: "platform \<Rightarrow> jsstring \<Rightarrow> jsstring \<Rightarrow> jsval \<Rightarrow>
    jserror + (SkillCategory \<times> DebugLog)" where
  "success_result P text cleanJson parsed =
     andThen (Get P parsed (ascii ''label'')) (\<lambda>parsed_label.
     andThen (Get P parsed (ascii ''text'')) (\<lambda>parsed_text.
     andThen (Get P parsed (ascii ''iconKey'')) (\<lambda>iconKey.
     andThen (ToString P iconKey) (\<lambda>key.
     Inr (\<lparr>label = parsed_label,
           text' = parsed_text,
           icon = (case ICON_MAP_lookup key of Some v \<Rightarrow> v | None \<Rightarrow> Icon Briefcase),
           color = ascii ''text-indigo-600'',
           bg = ascii ''bg-indigo-50'',
           isError = None\<rparr>,
          \<lparr>prompt = SYSTEM_PROMPT, input = text, response = cleanJson\<rparr>)))))"

text \<open>The \<^verbatim>\<open>try\<close> block (lines 77-112); \<open>Inl e\<close> is "\<open>e\<close> was thrown".\<close>

definition callGeminiAPI_try :: "platform \<Rightarrow> (request \<Rightarrow> fetch_outcome) \<Rightarrow> jsstring \<Rightarrow> jsstring \<Rightarrow>
    jserror + (SkillCategory \<times> DebugLog)" where
  "callGeminiAPI_try P fetch text apiKey =
     (case fetch (gemini_request text apiKey) of
        FetchRejected e \<Rightarrow> Inl e
      | JsonRejected status e \<Rightarrow> Inl e
      | JsonBody status data \<Rightarrow>
          andThen (check_error_field P data) (\<lambda>_.
          andThen (content_of P data) (\<lambda>content.
          if \<not> ToBoolean P content then Inl (Error (ascii ''No content generated''))
          else
            andThen (clean_json P content) (\<lambda>cleanJson.
            andThen (JSON_parse P cleanJson) (\<lambda>parsed.
            success_result P text cleanJson parsed)))))"

text \<open>
  The \<^verbatim>\<open>catch\<close> handler (lines 114-126). The description is the prefix of line 118
  (four ideographs, a colon and a space) followed by the message.
\<close>

definition failure_prefix :: jsstring where
  "failure_prefix = [0x63A5, 0x7D9A, 0x5931, 0x6557, 0x003A, 0x0020]"

definition failure_result :: "jsstring \<Rightarrow> jserror \<Rightarrow> SkillCategory \<times> DebugLog" where
  "failure_result text e =
     (\<lparr>label = VStr (ascii ''API Error''),
       text' = VStr (failure_prefix @ message e),
       icon = Icon XCircle,
       color = ascii ''text-red-500'',
       bg = ascii ''bg-red-50'',
       isError = Some True\<rparr>,
      \<lparr>prompt = SYSTEM_PROMPT, input = text, response = JSON_stringify_string (message e)\<rparr>)"

text \<open>
  The whole function: the promise it returns. The handler throws nothing, so the
  promise is fulfilled on both paths.
\<close>

definition callGeminiAPI :: "platform \<Rightarrow> (request \<Rightarrow> fetch_outcome) \<Rightarrow> jsstring \<Rightarrow> jsstring \<Rightarrow>
    (SkillCategory \<times> DebugLog) settled" where
  "callGeminiAPI P fetch text apiKey =
     (case callGeminiAPI_try P fetch text apiKey of
        Inr r \<Rightarrow> Fulfilled r
      | Inl e \<Rightarrow> Fulfilled (failure_result text e))"

section \<open>The session pipeline\<close>

subsection \<open>\<^verbatim>\<open>Promise.all\<close>\<close>

text \<open>
  \<^verbatim>\<open>Promise.all\<close> as ECMAScript defines it. It keeps one slot per promise (\<open>None\<close> is the
  \<^verbatim>\<open>undefined\<close> a slot starts with) and a count of the promises that have not been
  fulfilled yet. When promise \<open>i\<close> is fulfilled its value is stored in slot \<open>i\<close> and the
  count drops; the combined promise is fulfilled with the slots when the count reaches
  zero, and rejected by the first promise that is rejected. A promise settles once: a
  second settlement of the same index changes nothing.
\<close>

record 'a all_state =
  all_values :: "'a option list"
  remainingElementsCount :: nat
  all_outcome :: "'a option list settled option"

definition Promise_all_start :: "nat \<Rightarrow> 'a all_state" where
  "Promise_all_start n =
    \<lparr>all_values = replicate n None,
     remainingElementsCount = n,
     all_outcome = (if n = 0 then Some (Fulfilled []) else None)\<rparr>"

definition Promise_all_settle :: "'a settled list \<Rightarrow> 'a all_state \<Rightarrow> nat \<Rightarrow> 'a all_state" where
  "Promise_all_settle promises st i =
     (if i < length promises \<and> i < length (all_values st) \<and> all_values st ! i = None
      then
        (case promises ! i of
           Rejected e \<Rightarrow>
             (if all_outcome st = None then st\<lparr>all_outcome := Some (Rejected e)\<rparr> else st)
         | Fulfilled v \<Rightarrow>
             (let vs = (all_values st)[i := Some v];
                  n = remainingElementsCount st - 1
              in st\<lparr>all_values := vs,
                    remainingElementsCount := n,
                    all_outcome :=
                      (if all_outcome st = None \<and> n = 0 then Some (Fulfilled vs)
                       else all_outcome st)\<rparr>))
      else st)"

text \<open>
  The order in which the promises settle is a list of their indices: the schedule. The
  state of \<^verbatim>\<open>Promise.all\<close> after the settlements of a schedule, in its order:
\<close>

definition Promise_all :: "'a settled list \<Rightarrow> nat list \<Rightarrow> 'a all_state" where
  "Promise_all promises schedule =
     foldl (Promise_all_settle promises) (Promise_all_start (length promises)) schedule"

text \<open>A schedule in which each of \<open>n\<close> promises settles exactly once.\<close>

definition complete_schedule :: "nat \<Rightarrow> nat list \<Rightarrow> bool" where
  "complete_schedule n schedule \<longleftrightarrow> distinct schedule \<and> set schedule = set [0..<n]"

subsection \<open>The state of the component \<^verbatim>\<open>App\<close> (lines 129-139)\<close>

datatype Mode = Standard | AI

record session =
  step :: nat
  mode :: Mode
  apiKey :: jsstring
  inputs :: "jsstring list"
  currentInput :: jsstring
  aiResults :: "SkillCategory list"
  debugLogs :: "DebugLog list"
  isProcessing :: bool
  showDebug :: bool
  sessionStorage :: "jsstring \<rightharpoonup> jsstring"

text \<open>The initial state, after the effect of lines 142-145 has read the stored key.\<close>

definition initial_session :: "(jsstring \<rightharpoonup> jsstring) \<Rightarrow> session" where
  "initial_session storage =
    \<lparr>step = 0, mode = Standard,
     apiKey = (case storage (ascii ''gemini_api_key'') of
                 Some savedKey \<Rightarrow> if savedKey \<noteq> [] then savedKey else []
               | None \<Rightarrow> []),
     inputs = [], currentInput = [], aiResults = [], debugLogs = [],
     isProcessing = False, showDebug = False, sessionStorage = storage\<rparr>"

definition saveApiKey :: "jsstring \<Rightarrow> session \<Rightarrow> session" where
  "saveApiKey key s =
     s\<lparr>apiKey := key, sessionStorage := (sessionStorage s)(ascii ''gemini_api_key'' \<mapsto> key)\<rparr>"

definition clearApiKey :: "session \<Rightarrow> session" where
  "clearApiKey s =
     s\<lparr>apiKey := [], sessionStorage := (sessionStorage s)(ascii ''gemini_api_key'' := None)\<rparr>"

definition addInput :: "session \<Rightarrow> session" where
  "addInput s =
     (if str_trim (currentInput s) = [] then s
      else s\<lparr>inputs := inputs s @ [currentInput s], currentInput := []\<rparr>)"

text \<open>
  The handler of the button that leads back to the start (line 441):
  \<^verbatim>\<open>setInputs([]); setStep(0); setAiResults([]); setDebugLogs([])\<close>.
\<close>

definition startOver :: "session \<Rightarrow> session" where
  "startOver s = s\<lparr>inputs := [], step := 0, aiResults := [], debugLogs := []\<rparr>"

subsection \<open>\<^verbatim>\<open>processTranslation\<close> (lines 164-180)\<close>

text \<open>
  A call of \<^verbatim>\<open>processTranslation\<close> ends in one of three ways: it is still suspended at
  its \<^verbatim>\<open>await\<close> (not every request has settled), it threw, or it ran to its end. In
  each case the state of the component is the one the calls of the setters so far have
  produced.
\<close>

datatype run = Suspended session | Threw jserror session | Completed session

text \<open>
  \<open>net i\<close> is how the network answers the request issued for input \<open>i\<close>; the schedule is
  the order in which the requests complete. \<^verbatim>\<open>rawResults.map(r => r.result)\<close> throws on
  a slot that is still \<^verbatim>\<open>undefined\<close>.
\<close>

definition issue_requests ::
  "platform \<Rightarrow> (nat \<Rightarrow> request \<Rightarrow> fetch_outcome) \<Rightarrow> jsstring \<Rightarrow> jsstring list \<Rightarrow>
     (SkillCategory \<times> DebugLog) settled list" where
  "issue_requests P net key xs =
     map (\<lambda>(i, x). callGeminiAPI P (net i) x key) (enumerate 0 xs)"

definition processTranslation ::
  "platform \<Rightarrow> (nat \<Rightarrow> request \<Rightarrow> fetch_outcome) \<Rightarrow> nat list \<Rightarrow> session \<Rightarrow> run" where
  "processTranslation P net schedule s =
     (let s1 = s\<lparr>isProcessing := True, debugLogs := []\<rparr> in
      case mode s of
        Standard \<Rightarrow>
          Completed (s1\<lparr>aiResults := map (analyzeTextStandard (toLowerCase P)) (inputs s),
                        step := 2, isProcessing := False\<rparr>)
      | AI \<Rightarrow>
          (case all_outcome (Promise_all (issue_requests P net (apiKey s) (inputs s)) schedule) of
             None \<Rightarrow> Suspended s1
           | Some (Rejected e) \<Rightarrow> Threw e s1
           | Some (Fulfilled rawResults) \<Rightarrow>
               (case those rawResults of
                  None \<Rightarrow>
                    Threw (Error (TypeError_message P (NullishRead VUndefined (ascii ''result'')))) s1
                | Some rs \<Rightarrow>
                    Completed (s1\<lparr>aiResults := map fst rs, debugLogs := map snd rs,
                                  step := 2, isProcessing := False\<rparr>))))"

subsection \<open>The values of a batch\<close>

text \<open>
  The value that the promise of \<^verbatim>\<open>callGeminiAPI\<close> is fulfilled with, and the values of the
  calls that a batch issues, one per input and in the order of the inputs.
\<close>

definition callGeminiAPI_value ::
  "platform \<Rightarrow> (request \<Rightarrow> fetch_outcome) \<Rightarrow> jsstring \<Rightarrow> jsstring \<Rightarrow> SkillCategory \<times> DebugLog" where
  "callGeminiAPI_value P fetch text key =
     (case callGeminiAPI_try P fetch text key of
        Inr r \<Rightarrow> r
      | Inl e \<Rightarrow> failure_result text e)"

definition batch_values ::
  "platform \<Rightarrow> (nat \<Rightarrow> request \<Rightarrow> fetch_outcome) \<Rightarrow> jsstring \<Rightarrow> jsstring list \<Rightarrow>
     (SkillCategory \<times> DebugLog) list" where
  "batch_values P net key xs =
     map (\<lambda>(i, x). callGeminiAPI_value P (net i) x key) (enumerate 0 xs)"

section \<open>A sample engine and sample replies\<close>

text \<open>
  The concrete evaluations below need an engine. \<open>sample_platform\<close> lower-cases ASCII
  letters and answers \<^verbatim>\<open>JSON.parse\<close> from a table: it holds the four JSON texts used below
  with the values \<^verbatim>\<open>JSON.parse\<close> gives for them. Any other text is answered with a syntax
  error, which is what \<^verbatim>\<open>JSON.parse\<close> does with the one other text used below,
  \<^verbatim>\<open>not json\<close>. Numbers do not occur in the sample values.
\<close>

definition sample_reply_text :: "jsstring \<Rightarrow> jsstring" where
  \<open>sample_reply_text iconKey =
     ascii ''{"label":"X","text":"Y","iconKey":"'' @ iconKey @ ascii ''"}''\<close>

definition sample_reply_object :: "jsstring \<Rightarrow> jsval" where
  "sample_reply_object iconKey =
     VObj [(ascii ''label'', VStr (ascii ''X'')), (ascii ''text'', VStr (ascii ''Y'')),
           (ascii ''iconKey'', VStr iconKey)]"

definition sample_JSON_parse :: "jsstring \<Rightarrow> jserror + jsval" where
  "sample_JSON_parse s =
     (if s = sample_reply_text (ascii ''Users'') then Inr (sample_reply_object (ascii ''Users''))
      else if s = sample_reply_text (ascii ''Nonexistent'')
        then Inr (sample_reply_object (ascii ''Nonexistent''))
      else if s = sample_reply_text (ascii ''constructor'')
        then Inr (sample_reply_object (ascii ''constructor''))
      else if s = ascii ''{}'' then Inr (VObj [])
      else Inl (Error (ascii ''Unexpected token'')))"

definition sample_platform :: platform where
  "sample_platform =
    \<lparr>toLowerCase = toLowerCaseASCII,
     JSON_parse = sample_JSON_parse,
     Number_toString = (\<lambda>n. ascii ''0''),
     Number_toBoolean = (\<lambda>n. False),
     TypeError_message = (\<lambda>kind. ascii ''TypeError'')\<rparr>"

text \<open>The body of a response of the service that carries \<open>reply\<close> as its generated text.\<close>

definition service_response :: "jsstring \<Rightarrow> jsval" where
  "service_response reply =
     VObj [(ascii ''candidates'',
            VArr [VObj [(ascii ''content'',
                         VObj [(ascii ''parts'', VArr [VObj [(ascii ''text'', VStr reply)]])])]])]"

text \<open>A reply text wrapped in the code fence that the service may put around it.\<close>

definition fenced :: "jsstring \<Rightarrow> jsstring" where
  "fenced s = [0x60, 0x60, 0x60] @ ascii ''json'' @ [0x0A] @ s @ [0x0A, 0x60, 0x60, 0x60]"

text \<open>
  A network that answers every request with the status 200 and the body \<open>data\<close>, and one
  that answers with a given status.
\<close>

definition answering :: "jsval \<Rightarrow> request \<Rightarrow> fetch_outcome" where
  "answering data req = JsonBody 200 data"


text \<open>
  A session in delegated mode with two queued inputs; a network that answers every request
  with the well-formed reply; and a network on which the request for input 0 fails.
\<close>

definition sample_session :: session where
  "sample_session =
     (initial_session Map.empty)
       \<lparr>step := 1, mode := AI, apiKey := ascii ''secret'',
        inputs := [ascii ''first task'', ascii ''second task'']\<rparr>"

definition sample_net_ok :: "nat \<Rightarrow> request \<Rightarrow> fetch_outcome" where
  "sample_net_ok i = answering (service_response (sample_reply_text (ascii ''Users'')))"

definition sample_net :: "nat \<Rightarrow> request \<Rightarrow> fetch_outcome" where
  "sample_net i =
     (if i = 0 then (\<lambda>req. FetchRejected (Error (ascii ''Failed to fetch'')))
      else sample_net_ok i)"

section \<open>Properties of the dictionary classifier\<close>

subsection \<open>Occurrences of keywords survive trimming\<close>

lemma str_includes_sublist: "str_includes s k = sublist k s"
  by (induction s) (auto simp: sublist_Cons_right)

lemma sublist_dropWhile:
  assumes "k \<noteq> []" and "\<not> P (hd k)"
  shows "sublist k (dropWhile P s) = sublist k s"
proof
  assume "sublist k (dropWhile P s)"
  then obtain ps ss where "dropWhile P s = ps @ k @ ss" by (auto simp: sublist_def)
  then have "s = (takeWhile P s @ ps) @ k @ ss"
    by (metis append.assoc takeWhile_dropWhile_id)
  then show "sublist k s" unfolding sublist_def by blast
next
  assume "sublist k s"
  then obtain ps ss where s: "s = ps @ k @ ss" by (auto simp: sublist_def)
  from assms obtain c k' where k: "k = c # k'" and c: "\<not> P c" by (cases k) auto
  have "dropWhile P s = dropWhile P ps @ k @ ss"
    unfolding s k using c by (induction ps) auto
  then show "sublist k (dropWhile P s)" unfolding sublist_def by blast
qed

lemma sublist_trim:
  assumes "k \<noteq> []" and "\<not> isWhiteSpace (hd k)" and "\<not> isWhiteSpace (last k)"
  shows "sublist k (str_trim s) = sublist k s"
proof -
  have r: "rev k \<noteq> []" "\<not> isWhiteSpace (hd (rev k))"
    using assms by (simp_all add: hd_rev)
  have "sublist k (str_trim s) = sublist (rev k) (dropWhile isWhiteSpace (rev (dropWhile isWhiteSpace s)))"
    unfolding str_trim_def by (metis sublist_rev rev_rev_ident)
  also have "\<dots> = sublist (rev k) (rev (dropWhile isWhiteSpace s))"
    using sublist_dropWhile[of "rev k" isWhiteSpace, OF r] by simp
  also have "\<dots> = sublist k (dropWhile isWhiteSpace s)" by (simp add: sublist_rev)
  also have "\<dots> = sublist k s"
    using sublist_dropWhile[of k isWhiteSpace, OF assms(1,2)] by simp
  finally show ?thesis .
qed

lemmas rule_defs = rule_crisis_def rule_stakeholder_def rule_planning_def
    rule_quality_def rule_schedule_def rule_data_def

lemma all_keys_high: "k \<in> set all_keys \<Longrightarrow> k \<noteq> [] \<and> (\<forall>c\<in>set k. 0x3000 < c \<and> c < 0xA000)"
  unfolding all_keys_def dictionary_def rule_defs
  by (simp, elim disjE; simp)

lemma high_not_space: "0x3000 < c \<and> c < 0xA000 \<Longrightarrow> \<not> isWhiteSpace c"
  unfolding isWhiteSpace_def by auto

lemma all_keys_plain:
  assumes "k \<in> set all_keys"
  shows "k \<noteq> [] \<and> \<not> isWhiteSpace (hd k) \<and> \<not> isWhiteSpace (last k)"
  using all_keys_high[OF assms] high_not_space by (simp add: hd_in_set last_in_set)

lemma trim_keeps_keys:
  "k \<in> set all_keys \<Longrightarrow> str_includes (str_trim s) k = str_includes s k"
  using all_keys_plain[of k] by (simp add: str_includes_sublist sublist_trim)

lemma normalised_keeps_keys:
  "keyword_stable lc \<Longrightarrow> k \<in> set all_keys \<Longrightarrow>
     str_includes (lc (str_trim s)) k = str_includes s k"
  by (simp add: keyword_stable_def trim_keeps_keys)

lemma keys_in_all_keys: "cat \<in> set dictionary \<Longrightarrow> set (keys cat) \<subseteq> set all_keys"
  by (auto simp: all_keys_def)

lemma rule_matches_normalised:
  assumes "keyword_stable lc" and "cat \<in> set dictionary"
  shows "rule_matches cat (lc (str_trim s)) = rule_matches cat s"
  using keys_in_all_keys[OF assms(2)] normalised_keeps_keys[OF assms(1)]
  unfolding rule_matches_def list_ex_iff by blast

lemma dictionary_loop_first:
  "i < length d \<Longrightarrow> rule_matches (d ! i) t \<Longrightarrow> (\<forall>j<i. \<not> rule_matches (d ! j) t) \<Longrightarrow>
     dictionary_loop d t = Some (SkillCategory.truncate (d ! i))"
proof (induction d arbitrary: i)
  case Nil
  then show ?case by simp
next
  case (Cons cat rest)
  show ?case
  proof (cases i)
    case 0
    with Cons.prems show ?thesis by (simp add: rule_matches_def)
  next
    case (Suc i')
    with Cons.prems have "\<not> rule_matches cat t" by auto
    moreover have "dictionary_loop rest t = Some (SkillCategory.truncate (rest ! i'))"
      using Cons.prems Suc by (intro Cons.IH) auto
    ultimately show ?thesis using Suc by (simp add: rule_matches_def)
  qed
qed

text \<open>
  Whatever the lower-casing is, the classifier returns the first entry that matches the
  trimmed and lower-cased text.
\<close>

lemma analyzeTextStandard_first_match:
  assumes "i < length dictionary"
    and "rule_matches (dictionary ! i) (lc (str_trim s))"
    and "\<forall>j<i. \<not> rule_matches (dictionary ! j) (lc (str_trim s))"
  shows "analyzeTextStandard lc s = SkillCategory.truncate (dictionary ! i)"
  using dictionary_loop_first[OF assms] by (simp add: analyzeTextStandard_def)

lemma dictionary_loop_none:
  "(\<forall>cat\<in>set d. \<not> rule_matches cat t) \<Longrightarrow> dictionary_loop d t = None"
  by (induction d) (auto simp: rule_matches_def)

lemma dictionary_loop_cong:
  "(\<forall>cat\<in>set d. rule_matches cat t = rule_matches cat u) \<Longrightarrow>
     dictionary_loop d t = dictionary_loop d u"
  by (induction d) (auto simp: rule_matches_def)

lemma analyzeTextStandard_raw:
  assumes "keyword_stable lc"
  shows "analyzeTextStandard lc s =
           (case dictionary_loop dictionary s of Some cat \<Rightarrow> cat | None \<Rightarrow> fallback)"
proof -
  have "dictionary_loop dictionary (lc (str_trim s)) = dictionary_loop dictionary s"
    by (rule dictionary_loop_cong) (simp add: rule_matches_normalised[OF assms])
  then show ?thesis by (simp add: analyzeTextStandard_def)
qed


lemma sublist_map_fixed:
  assumes "\<forall>c. (f c \<in> set k \<or> c \<in> set k) \<longrightarrow> f c = c"
  shows "sublist k (map f s) = sublist k s"
proof
  assume "sublist k s"
  then obtain ps ss where "s = ps @ k @ ss" by (auto simp: sublist_def)
  moreover have "map f k = k" using assms by (simp add: map_idI)
  ultimately have "map f s = map f ps @ k @ map f ss" by simp
  then show "sublist k (map f s)" unfolding sublist_def by blast
next
  assume "sublist k (map f s)"
  then obtain ps ss where "map f s = ps @ k @ ss" by (auto simp: sublist_def)
  then have "\<exists>us ws. s = us @ ws \<and> ps = map f us \<and> k @ ss = map f ws"
    by (simp add: map_eq_append_conv)
  then obtain us ws where s1: "s = us @ ws" and ws: "k @ ss = map f ws" by blast
  from ws have "\<exists>ks vs. ws = ks @ vs \<and> k = map f ks \<and> ss = map f vs"
    by (simp add: append_eq_map_conv)
  then obtain ks vs where s2: "ws = ks @ vs" and k: "map f ks = k" by auto
  have "\<forall>c\<in>set ks. f c \<in> set k" using k by auto
  then have "map f ks = ks" using assms by (simp add: map_idI)
  with k s1 s2 have "s = us @ k @ vs" by simp
  then show "sublist k s" unfolding sublist_def by blast
qed

lemma lower_unit_high:
  fixes c :: "16 word"
  assumes "0x41 \<le> c" and "c \<le> 0x5A"
  shows "\<not> (0x3000 < c + 0x20)" and "\<not> (0x3000 < c)"
  using assms by unat_arith+

lemma keyword_stable_ASCII: "keyword_stable toLowerCaseASCII"
  unfolding keyword_stable_def
proof (intro allI impI)
  fix s k assume k: "k \<in> set all_keys"
  let ?f = "\<lambda>c::16 word. if 0x41 \<le> c \<and> c \<le> 0x5A then c + 0x20 else c"
  have "\<forall>c. (?f c \<in> set k \<or> c \<in> set k) \<longrightarrow> ?f c = c"
    using all_keys_high[OF k] lower_unit_high by (metis (full_types))
  then have "sublist k (map ?f s) = sublist k s" by (rule sublist_map_fixed)
  then show "str_includes (toLowerCaseASCII s) k = str_includes s k"
    by (simp add: str_includes_sublist toLowerCaseASCII_def)
qed

subsection \<open>The first matching rule wins\<close>

text \<open>
  Claim C1. Let the engine's lower-casing leave the occurrences of trigger keywords as
  they are. If the input contains a trigger keyword of entry \<open>i\<close> of the rule table and
  no trigger keyword of an entry before \<open>i\<close>, then \<open>analyzeTextStandard\<close> returns the copy
  of entry \<open>i\<close>: its label, its description and its icon.
\<close>

theorem first_matching_rule_wins:
  assumes "keyword_stable lc"
    and "i < length dictionary"
    and "rule_matches (dictionary ! i) inputText"
    and "\<forall>j<i. \<not> rule_matches (dictionary ! j) inputText"
  shows "analyzeTextStandard lc inputText = SkillCategory.truncate (dictionary ! i)
       \<and> label (analyzeTextStandard lc inputText) = label (dictionary ! i)
       \<and> text' (analyzeTextStandard lc inputText) = text' (dictionary ! i)
       \<and> icon (analyzeTextStandard lc inputText) = icon (dictionary ! i)"
proof -
  have "dictionary_loop dictionary inputText = Some (SkillCategory.truncate (dictionary ! i))"
    using assms(2-4) by (rule dictionary_loop_first)
  then have "analyzeTextStandard lc inputText = SkillCategory.truncate (dictionary ! i)"
    by (simp add: analyzeTextStandard_raw[OF assms(1)])
  then show ?thesis by (simp add: SkillCategory.truncate_def)
qed

text \<open>
  The input of the witness is two spaces, \<^verbatim>\<open>PTA\<close>, a space, four ideographs that contain
  two keywords of entry 4 (schedule control) and no keyword of an earlier entry, and a
  space.
\<close>

lemma rule_matches_eval:
  "rule_matches cat s = list_ex (\<lambda>k. str_includes s k) (keys cat)"
  by (simp add: rule_matches_def)

theorem first_matching_rule_wins_witness:
  "keyword_stable toLowerCaseASCII
   \<and> (4::nat) < length dictionary
   \<and> rule_matches (dictionary ! 4) (ascii ''  PTA '' @ [0x9032, 0x884C, 0x7BA1, 0x7406, 0x0020])
   \<and> \<not> rule_matches (dictionary ! 3) (ascii ''  PTA '' @ [0x9032, 0x884C, 0x7BA1, 0x7406, 0x0020])
   \<and> analyzeTextStandard toLowerCaseASCII
        (ascii ''  PTA '' @ [0x9032, 0x884C, 0x7BA1, 0x7406, 0x0020])
       = SkillCategory.truncate rule_schedule
   \<and> icon (analyzeTextStandard toLowerCaseASCII
        (ascii ''  PTA '' @ [0x9032, 0x884C, 0x7BA1, 0x7406, 0x0020])) = Icon Layers"
proof -
  let ?w = "ascii ''  PTA '' @ [0x9032, 0x884C, 0x7BA1, 0x7406, 0x0020]"
  have len: "(4::nat) < length dictionary" by (simp add: dictionary_def)
  have m4: "rule_matches (dictionary ! 4) ?w"
    by (simp add: rule_matches_eval dictionary_def rule_schedule_def ascii_def)
  have m0: "\<not> rule_matches (dictionary ! 0) ?w"
    by (simp add: rule_matches_eval dictionary_def rule_crisis_def ascii_def)
  have m1: "\<not> rule_matches (dictionary ! 1) ?w"
    by (simp add: rule_matches_eval dictionary_def rule_stakeholder_def ascii_def)
  have m2: "\<not> rule_matches (dictionary ! 2) ?w"
    by (simp add: rule_matches_eval dictionary_def rule_planning_def ascii_def)
  have m3: "\<not> rule_matches (dictionary ! 3) ?w"
    by (simp add: rule_matches_eval dictionary_def rule_quality_def ascii_def)
  have earlier: "\<forall>j<4. \<not> rule_matches (dictionary ! j) ?w"
  proof (intro allI impI)
    fix j :: nat assume "j < 4"
    then consider "j = 0" | "j = 1" | "j = 2" | "j = 3" by linarith
    then show "\<not> rule_matches (dictionary ! j) ?w"
      using m0 m1 m2 m3 by cases simp_all
  qed
  have d4: "dictionary ! 4 = rule_schedule" by (simp add: dictionary_def)
  have r: "analyzeTextStandard toLowerCaseASCII ?w = SkillCategory.truncate (dictionary ! 4)
       \<and> label (analyzeTextStandard toLowerCaseASCII ?w) = label (dictionary ! 4)
       \<and> text' (analyzeTextStandard toLowerCaseASCII ?w) = text' (dictionary ! 4)
       \<and> icon (analyzeTextStandard toLowerCaseASCII ?w) = icon (dictionary ! 4)"
    using keyword_stable_ASCII len m4 earlier by (rule first_matching_rule_wins)
  from r have r1: "analyzeTextStandard toLowerCaseASCII ?w = SkillCategory.truncate (dictionary ! 4)"
    and r4: "icon (analyzeTextStandard toLowerCaseASCII ?w) = icon (dictionary ! 4)"
    by blast+
  have a: "analyzeTextStandard toLowerCaseASCII ?w = SkillCategory.truncate rule_schedule"
    using r1 unfolding d4 .
  have b: "icon (analyzeTextStandard toLowerCaseASCII ?w) = Icon Layers"
    unfolding r4 d4 by (simp add: rule_schedule_def)
  show ?thesis
    using keyword_stable_ASCII len m4 m3 a b by (intro conjI) assumption+
qed

subsection \<open>No keyword: the fallback category\<close>

lemma no_key_no_match:
  assumes "\<forall>k\<in>set all_keys. \<not> str_includes s k"
  shows "\<forall>cat\<in>set dictionary. \<not> rule_matches cat s"
  using assms keys_in_all_keys unfolding rule_matches_def list_ex_iff by blast

lemma white_space_has_no_key:
  assumes "\<forall>c\<in>set ws. isWhiteSpace c"
  shows "\<forall>k\<in>set all_keys. \<not> str_includes ws k"
proof
  fix k assume k: "k \<in> set all_keys"
  show "\<not> str_includes ws k"
  proof
    assume "str_includes ws k"
    then have "set k \<subseteq> set ws" by (auto simp: str_includes_sublist sublist_def)
    moreover have "hd k \<in> set k" using all_keys_plain[OF k] by simp
    ultimately have "isWhiteSpace (hd k)" using assms by blast
    then show False using all_keys_plain[OF k] by simp
  qed
qed

text \<open>
  Claim C4. Let the engine's lower-casing leave the occurrences of trigger keywords as
  they are. An input that contains no trigger keyword of any rule is classified as the
  fallback category, general administration; so is the empty string and so is every
  string of white space. The fallback carries no \<^verbatim>\<open>isError\<close> property, which the render
  code reads as "no error".
\<close>

theorem no_keyword_gives_fallback:
  assumes "keyword_stable lc"
  shows "((\<forall>k\<in>set all_keys. \<not> str_includes inputText k) \<longrightarrow>
            analyzeTextStandard lc inputText = fallback)
       \<and> analyzeTextStandard lc [] = fallback
       \<and> ((\<forall>c\<in>set ws. isWhiteSpace c) \<longrightarrow> analyzeTextStandard lc ws = fallback)
       \<and> isError fallback = None
       \<and> \<not> is_error fallback
       \<and> label fallback =
           VStr [0x30B8, 0x30A7, 0x30CD, 0x30E9, 0x30EB, 0x30FB, 0x30A2, 0x30C9, 0x30DF,
                 0x30CB, 0x30B9, 0x30C8, 0x30EC, 0x30FC, 0x30B7, 0x30E7, 0x30F3]"
proof -
  have none: "analyzeTextStandard lc s = fallback"
    if "\<forall>k\<in>set all_keys. \<not> str_includes s k" for s
    using dictionary_loop_none[OF no_key_no_match[OF that]]
    by (simp add: analyzeTextStandard_raw[OF assms])
  have "analyzeTextStandard lc [] = fallback"
    by (rule none[OF white_space_has_no_key]) simp
  moreover have "analyzeTextStandard lc ws = fallback" if "\<forall>c\<in>set ws. isWhiteSpace c"
    by (rule none[OF white_space_has_no_key[OF that]])
  ultimately show ?thesis
    using none by (simp add: fallback_def is_error_def)
qed

text \<open>
  The inputs of the witness: the word \<^verbatim>\<open>Lunch\<close>, the empty string, and a string made of a
  space, an ideographic space, a tab and a line feed.
\<close>

lemma all_keys_eval:
  "all_keys = keys rule_crisis @ keys rule_stakeholder @ keys rule_planning @
     keys rule_quality @ keys rule_schedule @ keys rule_data"
  by (simp add: all_keys_def dictionary_def)

theorem no_keyword_gives_fallback_witness:
  "keyword_stable toLowerCaseASCII
   \<and> list_all (\<lambda>k. \<not> str_includes (ascii ''Lunch'') k) all_keys
   \<and> analyzeTextStandard toLowerCaseASCII (ascii ''Lunch'') = fallback
   \<and> analyzeTextStandard toLowerCaseASCII [] = fallback
   \<and> list_all isWhiteSpace [0x0020, 0x3000, 0x0009, 0x000A]
   \<and> analyzeTextStandard toLowerCaseASCII [0x0020, 0x3000, 0x0009, 0x000A] = fallback
   \<and> \<not> is_error (analyzeTextStandard toLowerCaseASCII (ascii ''Lunch''))"
proof -
  have nk: "list_all (\<lambda>k. \<not> str_includes (ascii ''Lunch'') k) all_keys"
    by (simp add: all_keys_eval rule_defs ascii_def)
  have ws: "list_all isWhiteSpace [0x0020, 0x3000, 0x0009, 0x000A]"
    by (simp add: isWhiteSpace_def)
  note t = no_keyword_gives_fallback[OF keyword_stable_ASCII,
      of "ascii ''Lunch''" "[0x0020, 0x3000, 0x0009, 0x000A]"]
  from t nk have a: "analyzeTextStandard toLowerCaseASCII (ascii ''Lunch'') = fallback"
    unfolding list_all_iff by blast
  from t have b: "analyzeTextStandard toLowerCaseASCII [] = fallback" by blast
  from t ws have c:
    "analyzeTextStandard toLowerCaseASCII [0x0020, 0x3000, 0x0009, 0x000A] = fallback"
    unfolding list_all_iff by blast
  from t have d: "\<not> is_error (analyzeTextStandard toLowerCaseASCII (ascii ''Lunch''))"
    unfolding a by blast
  show ?thesis
    using keyword_stable_ASCII nk a b ws c d by (intro conjI) assumption+
qed

subsection \<open>The three scenarios of the specification\<close>

lemma dictionary_loop_eval:
  "dictionary_loop dictionary t =
     (if rule_matches rule_crisis t then Some (SkillCategory.truncate rule_crisis)
      else if rule_matches rule_stakeholder t then Some (SkillCategory.truncate rule_stakeholder)
      else if rule_matches rule_planning t then Some (SkillCategory.truncate rule_planning)
      else if rule_matches rule_quality t then Some (SkillCategory.truncate rule_quality)
      else if rule_matches rule_schedule t then Some (SkillCategory.truncate rule_schedule)
      else if rule_matches rule_data t then Some (SkillCategory.truncate rule_data)
      else None)"
  by (simp add: dictionary_def rule_matches_def)

text \<open>
  Claim C8. Let the engine's lower-casing leave the occurrences of trigger keywords as
  they are. The first input (four katakana that spell the keyword "complaint", followed
  by two ideographs) is classified as crisis management. The second input (four
  ideographs that contain two keywords of the schedule entry) matches none of the four
  entries before the schedule entry and is classified as schedule control, labelled
  with four ideographs and \<^verbatim>\<open>(Time Mgmt)\<close>. The input \<^verbatim>\<open>xyz123\<close> is classified as the
  fallback category.
\<close>

theorem standard_mode_scenarios:
  assumes "keyword_stable lc"
  shows "analyzeTextStandard lc [0x30AF, 0x30EC, 0x30FC, 0x30E0, 0x5BFE, 0x5FDC]
           = SkillCategory.truncate rule_crisis
       \<and> label (analyzeTextStandard lc [0x30AF, 0x30EC, 0x30FC, 0x30E0, 0x5BFE, 0x5FDC])
           = VStr [0x30AF, 0x30E9, 0x30A4, 0x30B7, 0x30B9, 0x30DE, 0x30CD, 0x30B8, 0x30E1,
                   0x30F3, 0x30C8]
       \<and> \<not> rule_matches rule_crisis [0x9032, 0x884C, 0x7BA1, 0x7406]
       \<and> \<not> rule_matches rule_stakeholder [0x9032, 0x884C, 0x7BA1, 0x7406]
       \<and> \<not> rule_matches rule_planning [0x9032, 0x884C, 0x7BA1, 0x7406]
       \<and> \<not> rule_matches rule_quality [0x9032, 0x884C, 0x7BA1, 0x7406]
       \<and> rule_matches rule_schedule [0x9032, 0x884C, 0x7BA1, 0x7406]
       \<and> analyzeTextStandard lc [0x9032, 0x884C, 0x7BA1, 0x7406]
           = SkillCategory.truncate rule_schedule
       \<and> label (analyzeTextStandard lc [0x9032, 0x884C, 0x7BA1, 0x7406])
           = VStr [0x5DE5, 0x7A0B, 0x7BA1, 0x7406, 0x0020, 0x0028, 0x0054, 0x0069, 0x006D,
                   0x0065, 0x0020, 0x004D, 0x0067, 0x006D, 0x0074, 0x0029]
       \<and> analyzeTextStandard lc (ascii ''xyz123'') = fallback"
proof -
  note raw = analyzeTextStandard_raw[OF assms] dictionary_loop_eval
  have c: "rule_matches rule_crisis [0x30AF, 0x30EC, 0x30FC, 0x30E0, 0x5BFE, 0x5FDC]"
    by (simp add: rule_matches_def rule_crisis_def)
  have s0: "\<not> rule_matches rule_crisis [0x9032, 0x884C, 0x7BA1, 0x7406]"
    by (simp add: rule_matches_def rule_crisis_def)
  have s1: "\<not> rule_matches rule_stakeholder [0x9032, 0x884C, 0x7BA1, 0x7406]"
    by (simp add: rule_matches_def rule_stakeholder_def)
  have s2: "\<not> rule_matches rule_planning [0x9032, 0x884C, 0x7BA1, 0x7406]"
    by (simp add: rule_matches_def rule_planning_def)
  have s3: "\<not> rule_matches rule_quality [0x9032, 0x884C, 0x7BA1, 0x7406]"
    by (simp add: rule_matches_def rule_quality_def)
  have s4: "rule_matches rule_schedule [0x9032, 0x884C, 0x7BA1, 0x7406]"
    by (simp add: rule_matches_def rule_schedule_def)
  have x: "\<not> rule_matches rule_crisis (ascii ''xyz123'')"
    "\<not> rule_matches rule_stakeholder (ascii ''xyz123'')"
    "\<not> rule_matches rule_planning (ascii ''xyz123'')"
    "\<not> rule_matches rule_quality (ascii ''xyz123'')"
    "\<not> rule_matches rule_schedule (ascii ''xyz123'')"
    "\<not> rule_matches rule_data (ascii ''xyz123'')"
    by (simp_all add: rule_matches_def rule_defs ascii_def)
  have a1: "analyzeTextStandard lc [0x30AF, 0x30EC, 0x30FC, 0x30E0, 0x5BFE, 0x5FDC]
           = SkillCategory.truncate rule_crisis"
    unfolding raw using c by simp
  have a2: "analyzeTextStandard lc [0x9032, 0x884C, 0x7BA1, 0x7406]
           = SkillCategory.truncate rule_schedule"
    unfolding raw using s0 s1 s2 s3 s4 by simp
  have a3: "analyzeTextStandard lc (ascii ''xyz123'') = fallback"
    unfolding raw using x by simp
  have l1: "label (SkillCategory.truncate rule_crisis)
           = VStr [0x30AF, 0x30E9, 0x30A4, 0x30B7, 0x30B9, 0x30DE, 0x30CD, 0x30B8, 0x30E1,
                   0x30F3, 0x30C8]"
    by (simp add: SkillCategory.truncate_def rule_crisis_def)
  have l2: "label (SkillCategory.truncate rule_schedule)
           = VStr [0x5DE5, 0x7A0B, 0x7BA1, 0x7406, 0x0020, 0x0028, 0x0054, 0x0069, 0x006D,
                   0x0065, 0x0020, 0x004D, 0x0067, 0x006D, 0x0074, 0x0029]"
    by (simp add: SkillCategory.truncate_def rule_schedule_def)
  show ?thesis
    unfolding a1 a2 a3 using s0 s1 s2 s3 s4 l1 l2 by (intro conjI refl) assumption+
qed

theorem standard_mode_scenarios_witness:
  "keyword_stable toLowerCaseASCII
   \<and> label (analyzeTextStandard toLowerCaseASCII [0x30AF, 0x30EC, 0x30FC, 0x30E0, 0x5BFE, 0x5FDC])
       = label rule_crisis
   \<and> icon (analyzeTextStandard toLowerCaseASCII [0x9032, 0x884C, 0x7BA1, 0x7406]) = Icon Layers
   \<and> icon (analyzeTextStandard toLowerCaseASCII (ascii ''xyz123'')) = Icon Briefcase"
proof -
  note t = standard_mode_scenarios[OF keyword_stable_ASCII]
  from t have a: "analyzeTextStandard toLowerCaseASCII [0x30AF, 0x30EC, 0x30FC, 0x30E0, 0x5BFE, 0x5FDC]
           = SkillCategory.truncate rule_crisis"
    and b: "analyzeTextStandard toLowerCaseASCII [0x9032, 0x884C, 0x7BA1, 0x7406]
           = SkillCategory.truncate rule_schedule"
    and c: "analyzeTextStandard toLowerCaseASCII (ascii ''xyz123'') = fallback"
    by blast+
  show ?thesis
    unfolding a b c
    by (simp add: keyword_stable_ASCII SkillCategory.truncate_def rule_schedule_def fallback_def)
qed

subsection \<open>Letter case and surrounding white space do not matter\<close>

lemma same_keys_same_class:
  assumes "keyword_stable lc"
    and "\<forall>k\<in>set all_keys. str_includes a k = str_includes b k"
  shows "analyzeTextStandard lc a = analyzeTextStandard lc b"
proof -
  have "\<forall>cat\<in>set dictionary. rule_matches cat a = rule_matches cat b"
    using assms(2) keys_in_all_keys unfolding rule_matches_def list_ex_iff by blast
  then have "dictionary_loop dictionary a = dictionary_loop dictionary b"
    by (rule dictionary_loop_cong)
  then show ?thesis by (simp add: analyzeTextStandard_raw[OF assms(1)])
qed

lemma differ_only_same_keys:
  assumes "keyword_stable lc" and "differ_only_by_case_or_padding lc a b"
  shows "\<forall>k\<in>set all_keys. str_includes a k = str_includes b k"
  using assms(2)
proof (induction rule: differ_only_by_case_or_padding.induct)
  case (same_lower_case a b)
  show ?case
  proof
    fix k assume k: "k \<in> set all_keys"
    have "str_includes a k = str_includes (lc a) k"
      using assms(1) k by (simp add: keyword_stable_def)
    also have "\<dots> = str_includes (lc b) k" by (simp add: same_lower_case)
    also have "\<dots> = str_includes b k"
      using assms(1) k by (simp add: keyword_stable_def)
    finally show "str_includes a k = str_includes b k" .
  qed
next
  case (same_trimmed a b)
  show ?case
  proof
    fix k assume k: "k \<in> set all_keys"
    have "str_includes a k = str_includes (str_trim a) k"
      by (simp add: trim_keeps_keys[OF k])
    also have "\<dots> = str_includes (str_trim b) k" by (simp add: same_trimmed)
    also have "\<dots> = str_includes b k" by (simp add: trim_keeps_keys[OF k])
    finally show "str_includes a k = str_includes b k" .
  qed
next
  case (chained a b c)
  then show ?case by simp
qed

text \<open>
  Claim C9. Let the engine's lower-casing leave the occurrences of trigger keywords as
  they are. Two inputs that differ only by letter case and/or by leading and trailing
  white space get the same classification: the same label, description and icon, and
  indeed the same result altogether.
\<close>

theorem case_and_padding_insensitive:
  assumes "keyword_stable lc" and "differ_only_by_case_or_padding lc a b"
  shows "analyzeTextStandard lc a = analyzeTextStandard lc b"
  using assms(1) differ_only_same_keys[OF assms] by (rule same_keys_same_class)

text \<open>
  The inputs of the witness: two spaces, the katakana keyword of claim C8 and \<^verbatim>\<open> TEL \<close>,
  against the same keyword and \<^verbatim>\<open> tel\<close>.
\<close>

theorem case_and_padding_insensitive_witness:
  "keyword_stable toLowerCaseASCII
   \<and> differ_only_by_case_or_padding toLowerCaseASCII
        ([0x0020, 0x0020, 0x30AF, 0x30EC, 0x30FC, 0x30E0] @ ascii '' TEL '')
        ([0x30AF, 0x30EC, 0x30FC, 0x30E0] @ ascii '' tel'')
   \<and> [0x0020, 0x0020, 0x30AF, 0x30EC, 0x30FC, 0x30E0] @ ascii '' TEL ''
        \<noteq> [0x30AF, 0x30EC, 0x30FC, 0x30E0] @ ascii '' tel''
   \<and> analyzeTextStandard toLowerCaseASCII
        ([0x0020, 0x0020, 0x30AF, 0x30EC, 0x30FC, 0x30E0] @ ascii '' TEL '')
       = analyzeTextStandard toLowerCaseASCII ([0x30AF, 0x30EC, 0x30FC, 0x30E0] @ ascii '' tel'')"
proof -
  let ?a = "[0x0020, 0x0020, 0x30AF, 0x30EC, 0x30FC, 0x30E0] @ ascii '' TEL ''"
  let ?m = "[0x30AF, 0x30EC, 0x30FC, 0x30E0] @ ascii '' TEL''"
  let ?b = "[0x30AF, 0x30EC, 0x30FC, 0x30E0] @ ascii '' tel''"
  have "str_trim ?a = str_trim ?m"
    by (simp add: str_trim_def isWhiteSpace_def ascii_def)
  then have am: "differ_only_by_case_or_padding toLowerCaseASCII ?a ?m"
    by (rule same_trimmed)
  have "toLowerCaseASCII ?m = toLowerCaseASCII ?b"
    by (simp add: toLowerCaseASCII_def ascii_def)
  then have mb: "differ_only_by_case_or_padding toLowerCaseASCII ?m ?b"
    by (rule same_lower_case)
  have ab: "differ_only_by_case_or_padding toLowerCaseASCII ?a ?b"
    using am mb by (rule chained)
  have ne: "?a \<noteq> ?b" by (simp add: ascii_def)
  have eq: "analyzeTextStandard toLowerCaseASCII ?a = analyzeTextStandard toLowerCaseASCII ?b"
    using keyword_stable_ASCII ab by (rule case_and_padding_insensitive)
  show ?thesis
    using keyword_stable_ASCII ab ne eq by (intro conjI) assumption+
qed

section \<open>Properties of the remote classifier\<close>

subsection \<open>The two paths of \<^verbatim>\<open>callGeminiAPI\<close>\<close>

lemma callGeminiAPI_caught:
  "callGeminiAPI_try P fetch inp key = Inl e \<Longrightarrow>
     callGeminiAPI P fetch inp key = Fulfilled (failure_result inp e)"
  by (simp add: callGeminiAPI_def)

lemma callGeminiAPI_returned:
  "callGeminiAPI_try P fetch inp key = Inr r \<Longrightarrow>
     callGeminiAPI P fetch inp key = Fulfilled r"
  by (simp add: callGeminiAPI_def)



lemma try_network_error:
  "fetch (gemini_request inp key) = FetchRejected e \<Longrightarrow>
     callGeminiAPI_try P fetch inp key = Inl e"
  by (simp add: callGeminiAPI_try_def)






subsection \<open>Evaluating replies\<close>

lemma content_of_service_response:
  "content_of P (service_response reply) = Inr (VStr reply)"
  by (simp add: content_of_def service_response_def optional_def ascii_def)

lemma check_error_field_service_response:
  "check_error_field P (service_response reply) = Inr ()"
  by (simp add: check_error_field_def service_response_def ascii_def)

lemma try_service_response:
  assumes "fetch (gemini_request inp key) = JsonBody status (service_response reply)"
    and "reply \<noteq> []"
  shows "callGeminiAPI_try P fetch inp key =
           andThen (clean_json P (VStr reply)) (\<lambda>cleanJson.
           andThen (JSON_parse P cleanJson) (\<lambda>parsed.
           success_result P inp cleanJson parsed))"
  by (simp add: callGeminiAPI_try_def assms content_of_service_response
        check_error_field_service_response)

lemma str_remove_all_absent:
  "pat \<noteq> [] \<Longrightarrow> hd pat \<notin> set s \<Longrightarrow> str_remove_all pat s = s"
proof (induction s)
  case Nil
  then show ?case by simp
next
  case (Cons c s)
  then have "\<not> prefix pat (c # s)"
    by (cases pat) auto
  with Cons show ?case by simp
qed

lemma str_trim_id:
  assumes "s \<noteq> []" and "\<not> isWhiteSpace (hd s)" and "\<not> isWhiteSpace (last s)"
  shows "str_trim s = s"
proof -
  have "dropWhile isWhiteSpace s = s" using assms(1,2) by (cases s) auto
  moreover have "dropWhile isWhiteSpace (rev s) = rev s"
    using assms(1,3) by (cases "rev s") (auto simp: hd_rev)
  ultimately show ?thesis by (simp add: str_trim_def)
qed

lemma clean_json_plain:
  assumes "s \<noteq> []" and "\<not> isWhiteSpace (hd s)" and "\<not> isWhiteSpace (last s)"
    and "0x60 \<notin> set s"
  shows "clean_json P (VStr s) = Inr s"
  using assms by (simp add: clean_json_def str_remove_all_absent str_trim_id)

lemma clean_sample_reply:
  assumes "0x60 \<notin> set k"
  shows "clean_json P (VStr (sample_reply_text k)) = Inr (sample_reply_text k)"
proof (rule clean_json_plain)
  show "sample_reply_text k \<noteq> []" by (simp add: sample_reply_text_def ascii_def)
  show "\<not> isWhiteSpace (hd (sample_reply_text k))"
    by (simp add: sample_reply_text_def ascii_def isWhiteSpace_def)
  show "\<not> isWhiteSpace (last (sample_reply_text k))"
    by (simp add: sample_reply_text_def ascii_def isWhiteSpace_def)
  show "0x60 \<notin> set (sample_reply_text k)"
    using assms by (simp add: sample_reply_text_def ascii_def)
qed

lemma success_result_object:
  assumes "ToString P (case map_of props (ascii ''iconKey'') of Some v \<Rightarrow> v | None \<Rightarrow> VUndefined)
             = Inr k"
  shows "success_result P inp cleanJson (VObj props) =
     Inr (\<lparr>label = (case map_of props (ascii ''label'') of Some v \<Rightarrow> v | None \<Rightarrow> VUndefined),
           text' = (case map_of props (ascii ''text'') of Some v \<Rightarrow> v | None \<Rightarrow> VUndefined),
           icon = (case ICON_MAP_lookup k of Some v \<Rightarrow> v | None \<Rightarrow> Icon Briefcase),
           color = ascii ''text-indigo-600'', bg = ascii ''bg-indigo-50'', isError = None\<rparr>,
          \<lparr>prompt = SYSTEM_PROMPT, input = inp, response = cleanJson\<rparr>)"
  using assms by (simp add: success_result_def)

lemma success_result_sample:
  "success_result P inp cleanJson (sample_reply_object k) =
     Inr (\<lparr>label = VStr (ascii ''X''), text' = VStr (ascii ''Y''),
           icon = (case ICON_MAP_lookup k of Some v \<Rightarrow> v | None \<Rightarrow> Icon Briefcase),
           color = ascii ''text-indigo-600'', bg = ascii ''bg-indigo-50'', isError = None\<rparr>,
          \<lparr>prompt = SYSTEM_PROMPT, input = inp, response = cleanJson\<rparr>)"
  unfolding sample_reply_object_def
  by (subst success_result_object[where k = k]) (simp_all add: ascii_def)

lemma ICON_MAP_lookup_eval:
  "ICON_MAP_lookup (ascii ''Users'') = Some (Icon Users)"
  "ICON_MAP_lookup (ascii ''Nonexistent'') = None"
  "ICON_MAP_lookup (ascii ''constructor'') = Some (Inherited (ascii ''constructor''))"
  "ICON_MAP_lookup (ascii ''undefined'') = None"
  by (simp_all add: ICON_MAP_lookup_def ICON_MAP_def Object_prototype_names_def ascii_def)

lemma sample_parse_eval:
  "JSON_parse sample_platform (sample_reply_text (ascii ''Users''))
     = Inr (sample_reply_object (ascii ''Users''))"
  "JSON_parse sample_platform (sample_reply_text (ascii ''Nonexistent''))
     = Inr (sample_reply_object (ascii ''Nonexistent''))"
  "JSON_parse sample_platform (sample_reply_text (ascii ''constructor''))
     = Inr (sample_reply_object (ascii ''constructor''))"
  "JSON_parse sample_platform (ascii ''{}'') = Inr (VObj [])"
  "JSON_parse sample_platform (ascii ''not json'') = Inl (Error (ascii ''Unexpected token''))"
  by (simp_all add: sample_platform_def sample_JSON_parse_def sample_reply_text_def ascii_def)

lemma sample_reply_run:
  assumes "0x60 \<notin> set k"
    and "JSON_parse P (sample_reply_text k) = Inr (sample_reply_object k)"
  shows "callGeminiAPI P (\<lambda>req. JsonBody 200 (service_response (sample_reply_text k))) inp key =
     Fulfilled
       (\<lparr>label = VStr (ascii ''X''), text' = VStr (ascii ''Y''),
         icon = (case ICON_MAP_lookup k of Some v \<Rightarrow> v | None \<Rightarrow> Icon Briefcase),
         color = ascii ''text-indigo-600'', bg = ascii ''bg-indigo-50'', isError = None\<rparr>,
        \<lparr>prompt = SYSTEM_PROMPT, input = inp, response = sample_reply_text k\<rparr>)"
proof -
  have "sample_reply_text k \<noteq> []" by (simp add: sample_reply_text_def ascii_def)
  then have "callGeminiAPI_try P (\<lambda>req. JsonBody 200 (service_response (sample_reply_text k))) inp key
      = success_result P inp (sample_reply_text k) (sample_reply_object k)"
    by (subst try_service_response[where reply = "sample_reply_text k"])
       (simp_all add: clean_sample_reply[OF assms(1)] assms(2))
  then show ?thesis
    by (simp add: callGeminiAPI_def success_result_sample)
qed

lemma clean_fenced_reply:
  "clean_json P (VStr (fenced (sample_reply_text (ascii ''Users'')))) =
     Inr (sample_reply_text (ascii ''Users''))"
  by (simp add: clean_json_def fenced_def sample_reply_text_def ascii_def str_trim_def
        isWhiteSpace_def)

lemma fenced_reply_run:
  assumes "JSON_parse P (sample_reply_text (ascii ''Users''))
             = Inr (sample_reply_object (ascii ''Users''))"
  shows "callGeminiAPI P
       (\<lambda>req. JsonBody 200 (service_response (fenced (sample_reply_text (ascii ''Users''))))) inp key =
     Fulfilled
       (\<lparr>label = VStr (ascii ''X''), text' = VStr (ascii ''Y''), icon = Icon Users,
         color = ascii ''text-indigo-600'', bg = ascii ''bg-indigo-50'', isError = None\<rparr>,
        \<lparr>prompt = SYSTEM_PROMPT, input = inp, response = sample_reply_text (ascii ''Users'')\<rparr>)"
proof -
  have ne: "fenced (sample_reply_text (ascii ''Users'')) \<noteq> []"
    by (simp add: fenced_def)
  have "callGeminiAPI_try P
       (\<lambda>req. JsonBody 200 (service_response (fenced (sample_reply_text (ascii ''Users''))))) inp key
      = success_result P inp (sample_reply_text (ascii ''Users''))
          (sample_reply_object (ascii ''Users''))"
    by (subst try_service_response[where reply = "fenced (sample_reply_text (ascii ''Users''))"])
       (simp_all add: ne clean_fenced_reply assms)
  then show ?thesis
    by (simp add: callGeminiAPI_def success_result_sample ICON_MAP_lookup_eval)
qed

subsection \<open>The remote classifier never throws\<close>






subsection \<open>The icon of a well-formed reply\<close>

lemma ICON_MAP_key_head: "map_of ICON_MAP k = Some v \<Longrightarrow> k \<noteq> [] \<and> hd k < 0x5B"
  by (auto simp: ICON_MAP_def ascii_def split: if_splits)

lemma Object_prototype_name_head: "k \<in> set Object_prototype_names \<Longrightarrow> k \<noteq> [] \<and> 0x5F \<le> hd k"
  unfolding Object_prototype_names_def by (auto simp: ascii_def)

lemma ICON_MAP_lookup_inherited:
  assumes "k \<in> set Object_prototype_names"
  shows "ICON_MAP_lookup k = Some (Inherited k)"
proof -
  have "map_of ICON_MAP k = None"
  proof (cases "map_of ICON_MAP k")
    case (Some v)
    then have "hd k < 0x5B" by (simp add: ICON_MAP_key_head)
    moreover have "0x5F \<le> hd k" using assms by (simp add: Object_prototype_name_head)
    ultimately show ?thesis by unat_arith
  qed simp
  then show ?thesis using assms by (simp add: ICON_MAP_lookup_def)
qed

lemma ICON_MAP_lookup_default:
  "map_of ICON_MAP k = None \<Longrightarrow> k \<notin> set Object_prototype_names \<Longrightarrow>
     (case ICON_MAP_lookup k of Some v \<Rightarrow> v | None \<Rightarrow> Icon Briefcase) = Icon Briefcase"
  by (simp add: ICON_MAP_lookup_def)

text \<open>
  Claim C5. A reply whose text parses as the object with label \<^verbatim>\<open>X\<close>, text \<^verbatim>\<open>Y\<close> and icon
  key \<^verbatim>\<open>Users\<close> gives a result without error that carries \<^verbatim>\<open>X\<close>, \<^verbatim>\<open>Y\<close> and the icon
  \<^verbatim>\<open>Users\<close>; the icon key \<^verbatim>\<open>Nonexistent\<close> gives the default icon \<^verbatim>\<open>Briefcase\<close>. The icon key
  \<^verbatim>\<open>constructor\<close> is not in the allow-list either, but the lookup \<^verbatim>\<open>ICON_MAP[key]\<close> finds
  the member that \<^verbatim>\<open>ICON_MAP\<close> inherits from \<^verbatim>\<open>Object.prototype\<close>: the result carries that
  value as its icon and not the default icon. The last equation is the first reply
  again, wrapped in a code fence.
\<close>

theorem icon_lookup_reaches_Object_prototype:
  "callGeminiAPI sample_platform
       (\<lambda>req. JsonBody 200 (service_response (sample_reply_text (ascii ''Users''))))
       (ascii ''hello'') (ascii ''secret'') =
     Fulfilled
       (\<lparr>label = VStr (ascii ''X''), text' = VStr (ascii ''Y''), icon = Icon Users,
         color = ascii ''text-indigo-600'', bg = ascii ''bg-indigo-50'', isError = None\<rparr>,
        \<lparr>prompt = SYSTEM_PROMPT, input = ascii ''hello'',
         response = sample_reply_text (ascii ''Users'')\<rparr>)
   \<and> callGeminiAPI sample_platform
       (\<lambda>req. JsonBody 200 (service_response (sample_reply_text (ascii ''Nonexistent''))))
       (ascii ''hello'') (ascii ''secret'') =
     Fulfilled
       (\<lparr>label = VStr (ascii ''X''), text' = VStr (ascii ''Y''), icon = Icon Briefcase,
         color = ascii ''text-indigo-600'', bg = ascii ''bg-indigo-50'', isError = None\<rparr>,
        \<lparr>prompt = SYSTEM_PROMPT, input = ascii ''hello'',
         response = sample_reply_text (ascii ''Nonexistent'')\<rparr>)
   \<and> callGeminiAPI sample_platform
       (\<lambda>req. JsonBody 200 (service_response (sample_reply_text (ascii ''constructor''))))
       (ascii ''hello'') (ascii ''secret'') =
     Fulfilled
       (\<lparr>label = VStr (ascii ''X''), text' = VStr (ascii ''Y''),
         icon = Inherited (ascii ''constructor''),
         color = ascii ''text-indigo-600'', bg = ascii ''bg-indigo-50'', isError = None\<rparr>,
        \<lparr>prompt = SYSTEM_PROMPT, input = ascii ''hello'',
         response = sample_reply_text (ascii ''constructor'')\<rparr>)
   \<and> Inherited (ascii ''constructor'') \<noteq> Icon Briefcase
   \<and> callGeminiAPI sample_platform
       (\<lambda>req. JsonBody 200 (service_response (fenced (sample_reply_text (ascii ''Users'')))))
       (ascii ''hello'') (ascii ''secret'') =
     Fulfilled
       (\<lparr>label = VStr (ascii ''X''), text' = VStr (ascii ''Y''), icon = Icon Users,
         color = ascii ''text-indigo-600'', bg = ascii ''bg-indigo-50'', isError = None\<rparr>,
        \<lparr>prompt = SYSTEM_PROMPT, input = ascii ''hello'',
         response = sample_reply_text (ascii ''Users'')\<rparr>)"
proof -
  have nb: "0x60 \<notin> set (ascii ''Users'')" "0x60 \<notin> set (ascii ''Nonexistent'')"
    "0x60 \<notin> set (ascii ''constructor'')"
    by (simp_all add: ascii_def)
  show ?thesis
    by (simp add: sample_reply_run[OF nb(1) sample_parse_eval(1)]
          sample_reply_run[OF nb(2) sample_parse_eval(2)]
          sample_reply_run[OF nb(3) sample_parse_eval(3)] ICON_MAP_lookup_eval
          fenced_reply_run[OF sample_parse_eval(1)])
qed

subsection \<open>Absent fields of a reply\<close>






section \<open>Properties of the session pipeline\<close>

subsection \<open>Starting over\<close>

text \<open>
  Claim C10. The handler that starts over empties the queue of inputs, the results and
  the debug log and sets the step to 0, the step of the initial state. It leaves the
  mode, the credential in the state and the session storage (where the credential is
  kept) as they are, and the other fields of the state as well.
\<close>

theorem startOver_frame:
  "inputs (startOver s) = []
   \<and> aiResults (startOver s) = []
   \<and> debugLogs (startOver s) = []
   \<and> step (startOver s) = 0
   \<and> step (startOver s) = step (initial_session storage)
   \<and> mode (startOver s) = mode s
   \<and> apiKey (startOver s) = apiKey s
   \<and> sessionStorage (startOver s) = sessionStorage s
   \<and> currentInput (startOver s) = currentInput s
   \<and> isProcessing (startOver s) = isProcessing s
   \<and> showDebug (startOver s) = showDebug s"
  by (simp add: startOver_def initial_session_def)

subsection \<open>\<^verbatim>\<open>Promise.all\<close> over promises that are all fulfilled\<close>

lemma callGeminiAPI_value:
  "callGeminiAPI P fetch inp key = Fulfilled (callGeminiAPI_value P fetch inp key)"
  by (simp add: callGeminiAPI_def callGeminiAPI_value_def split: sum.split)

lemma issue_requests_fulfilled:
  "issue_requests P net key xs = map Fulfilled (batch_values P net key xs)"
  by (simp add: issue_requests_def batch_values_def callGeminiAPI_value split_def)

lemma length_batch_values [simp]: "length (batch_values P net key xs) = length xs"
  by (simp add: batch_values_def)

lemma nth_batch_values:
  "i < length xs \<Longrightarrow>
     batch_values P net key xs ! i = callGeminiAPI_value P (net i) (xs ! i) key"
  by (simp add: batch_values_def nth_enumerate_eq)

lemma distinct_below_length:
  assumes "distinct xs" and "set xs \<subseteq> {..<n}"
  shows "length xs \<le> n" and "length xs = n \<Longrightarrow> set xs = {..<n}"
proof -
  have c: "card (set xs) = length xs" using assms(1) by (simp add: distinct_card)
  have "card (set xs) \<le> card {..<n}" by (rule card_mono) (use assms(2) in auto)
  then show "length xs \<le> n" using c by simp
  assume "length xs = n"
  then have "card (set xs) = card {..<n}" using c by simp
  then show "set xs = {..<n}" using assms(2) by (simp add: card_subset_eq)
qed

lemma Promise_all_fulfilled:
  assumes "distinct schedule" and "set schedule \<subseteq> {..<length vs}"
  shows "Promise_all (map Fulfilled vs) schedule =
    \<lparr>all_values = map (\<lambda>i. if i \<in> set schedule then Some (vs ! i) else None) [0..<length vs],
     remainingElementsCount = length vs - length schedule,
     all_outcome =
       (if length schedule = length vs then Some (Fulfilled (map Some vs)) else None)\<rparr>"
  using assms
proof (induction schedule rule: rev_induct)
  case Nil
  have "replicate (length vs) None = map (\<lambda>i. None) [0..<length vs]"
    by (simp add: map_replicate_const)
  then show ?case
    by (auto simp: Promise_all_def Promise_all_start_def)
next
  case (snoc i schedule)
  let ?n = "length vs"
  let ?f = "\<lambda>S i. if i \<in> S then Some (vs ! i) else None"
  from snoc.prems have d: "distinct schedule" and sub: "set schedule \<subseteq> {..<?n}"
    and i: "i \<notin> set schedule" "i < ?n" by auto
  have le: "length (schedule @ [i]) \<le> ?n"
    using distinct_below_length(1)[OF snoc.prems] .
  then have lt: "length schedule < ?n" by simp
  have st: "Promise_all (map Fulfilled vs) schedule =
    \<lparr>all_values = map (?f (set schedule)) [0..<?n],
     remainingElementsCount = ?n - length schedule, all_outcome = None\<rparr>"
    using snoc.IH[OF d sub] lt by simp
  have upd: "(map (?f (set schedule)) [0..<?n])[i := Some (vs ! i)]
      = map (?f (set (schedule @ [i]))) [0..<?n]"
    using i by (intro nth_equalityI) (auto simp: nth_list_update)
  have full: "map (?f (set (schedule @ [i]))) [0..<?n] = map Some vs"
    if "length schedule + 1 = ?n"
  proof -
    have "set (schedule @ [i]) = {..<?n}"
      using distinct_below_length(2)[OF snoc.prems] that by simp
    then show ?thesis by (intro nth_equalityI) auto
  qed
  have "Promise_all (map Fulfilled vs) (schedule @ [i])
      = Promise_all_settle (map Fulfilled vs) (Promise_all (map Fulfilled vs) schedule) i"
    by (simp add: Promise_all_def)
  also have "\<dots> =
    \<lparr>all_values = map (?f (set (schedule @ [i]))) [0..<?n],
     remainingElementsCount = ?n - length (schedule @ [i]),
     all_outcome =
       (if length (schedule @ [i]) = ?n then Some (Fulfilled (map Some vs)) else None)\<rparr>"
  proof (cases "length schedule + 1 = ?n")
    case True
    then have z: "?n - length schedule - 1 = 0" by simp
    show ?thesis
      unfolding st Promise_all_settle_def using i True z full[OF True] upd
      by (simp add: Let_def)
  next
    case False
    then have z: "?n - length schedule - 1 \<noteq> 0" using lt by simp
    show ?thesis
      unfolding st Promise_all_settle_def using i False z upd
      by (simp add: Let_def)
  qed
  finally show ?case .
qed

lemma complete_schedule_iff:
  "complete_schedule n schedule \<longleftrightarrow> distinct schedule \<and> set schedule = {..<n}"
  by (simp add: complete_schedule_def lessThan_atLeast0)

lemma complete_schedule_length:
  "complete_schedule n schedule \<Longrightarrow> length schedule = n"
  using distinct_card[of schedule] by (simp add: complete_schedule_iff)

lemma those_map_Some: "those (map Some xs) = Some xs"
  by (induction xs) simp_all

subsection \<open>A batch in delegated mode\<close>

lemma processTranslation_complete:
  assumes "mode s = AI" and "complete_schedule (length (inputs s)) schedule"
  shows "processTranslation P net schedule s =
     Completed (s\<lparr>isProcessing := False,
                  debugLogs := map snd (batch_values P net (apiKey s) (inputs s)),
                  aiResults := map fst (batch_values P net (apiKey s) (inputs s)),
                  step := 2\<rparr>)"
proof -
  let ?vs = "batch_values P net (apiKey s) (inputs s)"
  have "distinct schedule" "set schedule \<subseteq> {..<length ?vs}" "length schedule = length ?vs"
    using assms(2) complete_schedule_length[OF assms(2)]
    by (auto simp: complete_schedule_iff)
  then have "all_outcome (Promise_all (map Fulfilled ?vs) schedule)
      = Some (Fulfilled (map Some ?vs))"
    by (simp add: Promise_all_fulfilled)
  then show ?thesis
    by (simp add: processTranslation_def assms(1) issue_requests_fulfilled those_map_Some)
qed

lemma processTranslation_pending:
  assumes "mode s = AI" and "distinct schedule" and "set schedule \<subseteq> {..<length (inputs s)}"
    and "length schedule < length (inputs s)"
  shows "processTranslation P net schedule s = Suspended (s\<lparr>isProcessing := True, debugLogs := []\<rparr>)"
proof -
  let ?vs = "batch_values P net (apiKey s) (inputs s)"
  have "all_outcome (Promise_all (map Fulfilled ?vs) schedule) = None"
    using assms(2-4) by (simp add: Promise_all_fulfilled)
  then show ?thesis
    by (simp add: processTranslation_def assms(1) issue_requests_fulfilled)
qed

lemma andThen_Inr_iff:
  "andThen x f = Inr r \<longleftrightarrow> (\<exists>v. x = Inr v \<and> f v = Inr r)"
  by (cases x) auto

lemma success_result_shape:
  assumes "success_result P inp cleanJson parsed = Inr r"
  shows "isError (fst r) = None" and "input (snd r) = inp" and "prompt (snd r) = SYSTEM_PROMPT"
    and "response (snd r) = cleanJson"
  using assms by (auto simp: success_result_def andThen_Inr_iff)

lemma try_Inr_shape:
  assumes "callGeminiAPI_try P fetch inp key = Inr r"
  shows "isError (fst r) = None" and "input (snd r) = inp" and "prompt (snd r) = SYSTEM_PROMPT"
proof -
  from assms obtain cleanJson parsed where "success_result P inp cleanJson parsed = Inr r"
    by (auto simp: callGeminiAPI_try_def andThen_Inr_iff split: fetch_outcome.splits if_splits)
  then show "isError (fst r) = None" and "input (snd r) = inp" and "prompt (snd r) = SYSTEM_PROMPT"
    by (simp_all add: success_result_shape)
qed

lemma callGeminiAPI_value_input:
  "input (snd (callGeminiAPI_value P fetch inp key)) = inp"
  by (cases "callGeminiAPI_try P fetch inp key")
     (simp_all add: callGeminiAPI_value_def failure_result_def try_Inr_shape)

lemma callGeminiAPI_value_is_error:
  "is_error (fst (callGeminiAPI_value P fetch inp key))
     \<longleftrightarrow> (\<exists>e. callGeminiAPI_try P fetch inp key = Inl e)"
  by (cases "callGeminiAPI_try P fetch inp key")
     (simp_all add: callGeminiAPI_value_def failure_result_def is_error_def try_Inr_shape)

subsection \<open>The sample session\<close>

lemma answering_fun: "answering data = (\<lambda>req. JsonBody 200 data)"
  by (simp add: fun_eq_iff answering_def)

lemma sample_session_fields:
  "mode sample_session = AI"
  "inputs sample_session = [ascii ''first task'', ascii ''second task'']"
  "length (inputs sample_session) = 2"
  "apiKey sample_session = ascii ''secret''"
  by (simp_all add: sample_session_def initial_session_def)

lemma sample_schedules:
  "complete_schedule 2 [1, 0]" "complete_schedule 2 [0, 1]"
  by (auto simp: complete_schedule_def numeral_2_eq_2)

lemma sample_try_failed:
  "callGeminiAPI_try sample_platform (sample_net 0) inp key = Inl (Error (ascii ''Failed to fetch''))"
  by (simp add: sample_net_def try_network_error)

lemma sample_try_ok:
  "callGeminiAPI_try sample_platform (sample_net_ok i) inp key =
     Inr (\<lparr>label = VStr (ascii ''X''), text' = VStr (ascii ''Y''), icon = Icon Users,
           color = ascii ''text-indigo-600'', bg = ascii ''bg-indigo-50'', isError = None\<rparr>,
          \<lparr>prompt = SYSTEM_PROMPT, input = inp,
           response = sample_reply_text (ascii ''Users'')\<rparr>)"
proof -
  have nb: "0x60 \<notin> set (ascii ''Users'')" by (simp add: ascii_def)
  have ne: "sample_reply_text (ascii ''Users'') \<noteq> []"
    by (simp add: sample_reply_text_def ascii_def)
  have "callGeminiAPI_try sample_platform (sample_net_ok i) inp key
      = success_result sample_platform inp (sample_reply_text (ascii ''Users''))
          (sample_reply_object (ascii ''Users''))"
    by (subst try_service_response[where reply = "sample_reply_text (ascii ''Users'')"])
       (simp_all add: sample_net_ok_def answering_def ne clean_sample_reply[OF nb]
          sample_parse_eval(1))
  then show ?thesis
    by (simp add: success_result_sample ICON_MAP_lookup_eval)
qed

lemma list_of_two:
  "length xs = 2 \<Longrightarrow> xs ! 0 = a \<Longrightarrow> xs ! 1 = b \<Longrightarrow> xs = [a, b]"
  by (cases xs; cases "tl xs") auto

subsection \<open>Results are aligned with the inputs\<close>

text \<open>
  Claim C3. In delegated mode, whatever the order in which the requests complete, the
  batch runs to its end with one result and one exchange record per input, and for every
  index \<open>i\<close> result \<open>i\<close> and record \<open>i\<close> are the ones that the call for input \<open>i\<close> is
  fulfilled with (the record names input \<open>i\<close> as its input). Every complete schedule
  gives the same final state, and as long as a request has not settled (after any proper
  prefix of the schedule) the batch is still suspended at its \<^verbatim>\<open>await\<close>.
\<close>

theorem delegated_results_are_index_aligned:
  assumes "mode s = AI" and "complete_schedule (length (inputs s)) schedule"
  shows "\<exists>t. processTranslation P net schedule s = Completed t
           \<and> length (aiResults t) = length (inputs s)
           \<and> length (debugLogs t) = length (inputs s)
           \<and> (\<forall>i<length (inputs s).
                 callGeminiAPI P (net i) (inputs s ! i) (apiKey s)
                   = Fulfilled (aiResults t ! i, debugLogs t ! i)
                 \<and> input (debugLogs t ! i) = inputs s ! i)
           \<and> (\<forall>schedule'. complete_schedule (length (inputs s)) schedule' \<longrightarrow>
                 processTranslation P net schedule' s = Completed t)
           \<and> (\<forall>n<length schedule.
                 processTranslation P net (take n schedule) s
                   = Suspended (s\<lparr>isProcessing := True, debugLogs := []\<rparr>))"
proof -
  let ?vs = "batch_values P net (apiKey s) (inputs s)"
  let ?t = "s\<lparr>isProcessing := False, debugLogs := map snd ?vs, aiResults := map fst ?vs,
              step := 2\<rparr>"
  have completes: "processTranslation P net schedule' s = Completed ?t"
    if "complete_schedule (length (inputs s)) schedule'" for schedule'
    using assms(1) that by (rule processTranslation_complete)
  have aligned: "callGeminiAPI P (net i) (inputs s ! i) (apiKey s)
                   = Fulfilled (aiResults ?t ! i, debugLogs ?t ! i)
                 \<and> input (debugLogs ?t ! i) = inputs s ! i"
    if "i < length (inputs s)" for i
    using that by (simp add: nth_batch_values callGeminiAPI_value callGeminiAPI_value_input)
  have pending: "processTranslation P net (take n schedule) s
                   = Suspended (s\<lparr>isProcessing := True, debugLogs := []\<rparr>)"
    if "n < length schedule" for n
  proof (rule processTranslation_pending[OF assms(1)])
    from assms(2) have d: "distinct schedule" and s: "set schedule = {..<length (inputs s)}"
      by (simp_all add: complete_schedule_iff)
    show "distinct (take n schedule)" using d by simp
    show "set (take n schedule) \<subseteq> {..<length (inputs s)}"
      using s set_take_subset[of n schedule] by blast
    show "length (take n schedule) < length (inputs s)"
      using that complete_schedule_length[OF assms(2)] by simp
  qed
  show ?thesis
    using completes[OF assms(2)] completes aligned pending
    by (intro exI[of _ ?t] conjI allI impI) simp_all
qed

text \<open>
  The witness: the sample session with two inputs, on the network where the request for
  input 0 fails, with request 1 completing before request 0. Result 0 is the error
  result, result 1 the classification of the reply; the opposite order gives the same
  state, and before both requests have settled the batch is suspended.
\<close>

theorem delegated_results_are_index_aligned_witness:
  "mode sample_session = AI
   \<and> complete_schedule (length (inputs sample_session)) [1, 0]
   \<and> (\<exists>t. processTranslation sample_platform sample_net [1, 0] sample_session = Completed t
          \<and> processTranslation sample_platform sample_net [0, 1] sample_session = Completed t
          \<and> aiResults t =
              [fst (failure_result (ascii ''first task'') (Error (ascii ''Failed to fetch''))),
               \<lparr>label = VStr (ascii ''X''), text' = VStr (ascii ''Y''), icon = Icon Users,
                color = ascii ''text-indigo-600'', bg = ascii ''bg-indigo-50'', isError = None\<rparr>]
          \<and> map input (debugLogs t) = [ascii ''first task'', ascii ''second task''])
   \<and> processTranslation sample_platform sample_net [1] sample_session
       = Suspended (sample_session\<lparr>isProcessing := True, debugLogs := []\<rparr>)
   \<and> processTranslation sample_platform sample_net [] sample_session
       = Suspended (sample_session\<lparr>isProcessing := True, debugLogs := []\<rparr>)"
proof -
  have cs: "complete_schedule (length (inputs sample_session)) [1, 0]"
    "complete_schedule (length (inputs sample_session)) [0, 1]"
    unfolding sample_session_fields(3) by (rule sample_schedules)+
  from delegated_results_are_index_aligned[OF sample_session_fields(1) cs(1),
      of sample_platform sample_net]
  obtain t where t: "processTranslation sample_platform sample_net [1, 0] sample_session = Completed t"
    and la: "length (aiResults t) = length (inputs sample_session)"
    and ld: "length (debugLogs t) = length (inputs sample_session)"
    and al: "\<forall>i<length (inputs sample_session).
                 callGeminiAPI sample_platform (sample_net i) (inputs sample_session ! i)
                     (apiKey sample_session)
                   = Fulfilled (aiResults t ! i, debugLogs t ! i)
                 \<and> input (debugLogs t ! i) = inputs sample_session ! i"
    and any: "\<forall>schedule'. complete_schedule (length (inputs sample_session)) schedule' \<longrightarrow>
                 processTranslation sample_platform sample_net schedule' sample_session = Completed t"
    and pre: "\<forall>n<length [1, 0::nat].
                 processTranslation sample_platform sample_net (take n [1, 0]) sample_session
                   = Suspended (sample_session\<lparr>isProcessing := True, debugLogs := []\<rparr>)"
    by blast
  have c0: "callGeminiAPI sample_platform (sample_net 0) (ascii ''first task'') (ascii ''secret'')
      = Fulfilled (failure_result (ascii ''first task'') (Error (ascii ''Failed to fetch'')))"
    by (simp add: callGeminiAPI_caught sample_try_failed)
  have c1: "callGeminiAPI sample_platform (sample_net 1) (ascii ''second task'') (ascii ''secret'')
      = Fulfilled (\<lparr>label = VStr (ascii ''X''), text' = VStr (ascii ''Y''), icon = Icon Users,
           color = ascii ''text-indigo-600'', bg = ascii ''bg-indigo-50'', isError = None\<rparr>,
          \<lparr>prompt = SYSTEM_PROMPT, input = ascii ''second task'',
           response = sample_reply_text (ascii ''Users'')\<rparr>)"
    by (simp add: sample_net_def callGeminiAPI_returned[OF sample_try_ok])
  have in0: "0 < length (inputs sample_session)" and in1: "1 < length (inputs sample_session)"
    by (simp_all add: sample_session_fields(3))
  from al[rule_format, OF in0]
  have a0: "callGeminiAPI sample_platform (sample_net 0) (ascii ''first task'') (ascii ''secret'')
                   = Fulfilled (aiResults t ! 0, debugLogs t ! 0)"
      and i0: "input (debugLogs t ! 0) = ascii ''first task''"
    by (simp_all add: sample_session_fields)
  from al[rule_format, OF in1]
  have a1: "callGeminiAPI sample_platform (sample_net 1) (ascii ''second task'') (ascii ''secret'')
                   = Fulfilled (aiResults t ! 1, debugLogs t ! 1)"
      and i1: "input (debugLogs t ! 1) = ascii ''second task''"
    by (simp_all add: sample_session_fields)
  have r0: "aiResults t ! 0 = fst (failure_result (ascii ''first task'') (Error (ascii ''Failed to fetch'')))"
    using a0 unfolding c0 by (metis fst_conv settled.inject(1))
  have r1: "aiResults t ! 1 = \<lparr>label = VStr (ascii ''X''), text' = VStr (ascii ''Y''), icon = Icon Users,
                color = ascii ''text-indigo-600'', bg = ascii ''bg-indigo-50'', isError = None\<rparr>"
    using a1 unfolding c1 by simp
  have res: "aiResults t =
              [fst (failure_result (ascii ''first task'') (Error (ascii ''Failed to fetch''))),
               \<lparr>label = VStr (ascii ''X''), text' = VStr (ascii ''Y''), icon = Icon Users,
                color = ascii ''text-indigo-600'', bg = ascii ''bg-indigo-50'', isError = None\<rparr>]"
    using la r0 r1 by (intro list_of_two) (simp_all add: sample_session_fields)
  have "length (map input (debugLogs t)) = 2" "map input (debugLogs t) ! 0 = ascii ''first task''"
    "map input (debugLogs t) ! 1 = ascii ''second task''"
    using ld i0 i1 by (simp_all add: sample_session_fields)
  then have logs: "map input (debugLogs t) = [ascii ''first task'', ascii ''second task'']"
    by (rule list_of_two)
  have t': "processTranslation sample_platform sample_net [0, 1] sample_session = Completed t"
    using any cs(2) by blast
  have p1: "processTranslation sample_platform sample_net [1] sample_session
       = Suspended (sample_session\<lparr>isProcessing := True, debugLogs := []\<rparr>)"
    using pre[rule_format, of 1] by simp
  have p0: "processTranslation sample_platform sample_net [] sample_session
       = Suspended (sample_session\<lparr>isProcessing := True, debugLogs := []\<rparr>)"
    using pre[rule_format, of 0] by simp
  have ex: "\<exists>t. processTranslation sample_platform sample_net [1, 0] sample_session = Completed t
          \<and> processTranslation sample_platform sample_net [0, 1] sample_session = Completed t
          \<and> aiResults t =
              [fst (failure_result (ascii ''first task'') (Error (ascii ''Failed to fetch''))),
               \<lparr>label = VStr (ascii ''X''), text' = VStr (ascii ''Y''), icon = Icon Users,
                color = ascii ''text-indigo-600'', bg = ascii ''bg-indigo-50'', isError = None\<rparr>]
          \<and> map input (debugLogs t) = [ascii ''first task'', ascii ''second task'']"
    using t t' res logs by (intro exI[of _ t] conjI) assumption+
  show ?thesis
    using sample_session_fields(1) cs(1) ex p1 p0 by (intro conjI) assumption+
qed

subsection \<open>A failure stays in its slot\<close>

text \<open>
  Claim C7. In delegated mode, let two networks answer alike except for the request of
  input \<open>j\<close> (which then may fail on one and succeed on the other). Under any two complete
  schedules both batches run to their end, never throw, and produce as many results as
  there are inputs; the results and records of every slot other than \<open>j\<close> are the same in
  both; and a slot holds an error result exactly when its own call failed.
\<close>

theorem one_failure_stays_in_its_slot:
  assumes "mode s = AI"
    and "complete_schedule (length (inputs s)) schedule"
    and "complete_schedule (length (inputs s)) schedule'"
    and "\<forall>i. i \<noteq> j \<longrightarrow> net' i = net i"
  shows "\<exists>t t'. processTranslation P net schedule s = Completed t
           \<and> processTranslation P net' schedule' s = Completed t'
           \<and> length (aiResults t) = length (inputs s)
           \<and> length (aiResults t') = length (inputs s)
           \<and> (\<forall>i<length (inputs s). i \<noteq> j \<longrightarrow>
                 aiResults t' ! i = aiResults t ! i \<and> debugLogs t' ! i = debugLogs t ! i)
           \<and> (\<forall>i<length (inputs s).
                 is_error (aiResults t' ! i)
                   \<longleftrightarrow> (\<exists>e. callGeminiAPI_try P (net' i) (inputs s ! i) (apiKey s) = Inl e))"
proof -
  let ?vs = "batch_values P net (apiKey s) (inputs s)"
  let ?vs' = "batch_values P net' (apiKey s) (inputs s)"
  let ?t = "s\<lparr>isProcessing := False, debugLogs := map snd ?vs, aiResults := map fst ?vs,
              step := 2\<rparr>"
  let ?t' = "s\<lparr>isProcessing := False, debugLogs := map snd ?vs', aiResults := map fst ?vs',
              step := 2\<rparr>"
  have 1: "processTranslation P net schedule s = Completed ?t"
    using assms(1,2) by (rule processTranslation_complete)
  have 2: "processTranslation P net' schedule' s = Completed ?t'"
    using assms(1,3) by (rule processTranslation_complete)
  have same: "aiResults ?t' ! i = aiResults ?t ! i \<and> debugLogs ?t' ! i = debugLogs ?t ! i"
    if "i < length (inputs s)" "i \<noteq> j" for i
    using that assms(4) by (simp add: nth_batch_values)
  have own: "is_error (aiResults ?t' ! i)
       \<longleftrightarrow> (\<exists>e. callGeminiAPI_try P (net' i) (inputs s ! i) (apiKey s) = Inl e)"
    if "i < length (inputs s)" for i
    using that by (simp add: nth_batch_values callGeminiAPI_value_is_error)
  show ?thesis
    using 1 2 same own
    by (intro exI[of _ ?t] exI[of _ ?t'] conjI allI impI) simp_all
qed

text \<open>
  The witness: the sample session on the network that answers every request, against
  the network where the request for input 0 fails. Slot 1 is the same on both; on the
  failing network slot 0 holds an error result and slot 1 does not.
\<close>

theorem one_failure_stays_in_its_slot_witness:
  "mode sample_session = AI
   \<and> complete_schedule (length (inputs sample_session)) [0, 1]
   \<and> complete_schedule (length (inputs sample_session)) [1, 0]
   \<and> sample_net 1 = sample_net_ok 1
   \<and> (\<exists>t t'. processTranslation sample_platform sample_net_ok [0, 1] sample_session = Completed t
          \<and> processTranslation sample_platform sample_net [1, 0] sample_session = Completed t'
          \<and> length (aiResults t') = 2
          \<and> aiResults t' ! 1 = aiResults t ! 1
          \<and> debugLogs t' ! 1 = debugLogs t ! 1
          \<and> is_error (aiResults t' ! 0)
          \<and> \<not> is_error (aiResults t' ! 1))"
proof -
  have cs: "complete_schedule (length (inputs sample_session)) [0, 1]"
    "complete_schedule (length (inputs sample_session)) [1, 0]"
    unfolding sample_session_fields(3) by (rule sample_schedules)+
  have nets: "\<forall>i. i \<noteq> 0 \<longrightarrow> sample_net i = sample_net_ok i"
    by (simp add: sample_net_def)
  have n1: "sample_net 1 = sample_net_ok 1" by (simp add: sample_net_def)
  from one_failure_stays_in_its_slot[OF sample_session_fields(1) cs nets, of sample_platform]
  obtain t t' where t: "processTranslation sample_platform sample_net_ok [0, 1] sample_session = Completed t"
    and t': "processTranslation sample_platform sample_net [1, 0] sample_session = Completed t'"
    and len: "length (aiResults t') = length (inputs sample_session)"
    and same: "\<forall>i<length (inputs sample_session). i \<noteq> 0 \<longrightarrow>
                 aiResults t' ! i = aiResults t ! i \<and> debugLogs t' ! i = debugLogs t ! i"
    and own: "\<forall>i<length (inputs sample_session).
                 is_error (aiResults t' ! i)
                   \<longleftrightarrow> (\<exists>e. callGeminiAPI_try sample_platform (sample_net i)
                              (inputs sample_session ! i) (apiKey sample_session) = Inl e)"
    by blast
  have in0: "0 < length (inputs sample_session)" and in1: "1 < length (inputs sample_session)"
    by (simp_all add: sample_session_fields(3))
  have l2: "length (aiResults t') = 2" using len by (simp add: sample_session_fields(3))
  have s1: "aiResults t' ! 1 = aiResults t ! 1" and s2: "debugLogs t' ! 1 = debugLogs t ! 1"
    using same[rule_format, OF in1] by simp_all
  have e0: "is_error (aiResults t' ! 0)"
    using own[rule_format, OF in0] sample_try_failed by blast
  have e1: "\<not> is_error (aiResults t' ! 1)"
    using own[rule_format, OF in1] unfolding n1 by (simp add: sample_try_ok)
  have ex: "\<exists>t t'. processTranslation sample_platform sample_net_ok [0, 1] sample_session = Completed t
          \<and> processTranslation sample_platform sample_net [1, 0] sample_session = Completed t'
          \<and> length (aiResults t') = 2
          \<and> aiResults t' ! 1 = aiResults t ! 1
          \<and> debugLogs t' ! 1 = debugLogs t ! 1
          \<and> is_error (aiResults t' ! 0)
          \<and> \<not> is_error (aiResults t' ! 1)"
    using t t' l2 s1 s2 e0 e1 by (intro exI[of _ t] exI[of _ t'] conjI) assumption+
  show ?thesis
    using sample_session_fields(1) cs n1 ex by (intro conjI) assumption+
qed

end
